theory Spec2Isabelle
  imports Main
begin

section \<open>Values and helper classes used by SI\_Symbol\<close>

text \<open>
  The file \<^verbatim>\<open>si_symbol.cpp\<close> is embedded function by function. Classes that it uses
  but that are declared elsewhere (Uuid, Point, XmlDomElement, the circuit and library
  classes) are given the small models of this section; member functions of other classes
  whose bodies decide nothing here are taken as parameters (record \<open>externals\<close> below).
\<close>

text \<open>
  Modelled from the spec: class Uuid (librepcbcommon, not in \<^verbatim>\<open>si_symbol.cpp\<close>) is the
  "identifier" of the data model. It is held as its string; the null Uuid is the empty one.
\<close>

datatype uuid = Uuid (toStr: string)

definition isNull :: "uuid \<Rightarrow> bool" where
  "isNull u = (toStr u = [])"

text \<open>
  Modelled from the spec: Length and Angle (integer nanometres and microdegrees in the
  code base) and Point, the "2D position"; \<open>Point::operator+\<close> adds coordinate-wise.
\<close>

type_synonym Length = int
type_synonym Angle = int

record Point =
  getX :: Length
  getY :: Length

definition Point_plus :: "Point \<Rightarrow> Point \<Rightarrow> Point" where
  "Point_plus a b = \<lparr>getX = getX a + getX b, getY = getY a + getY b\<rparr>"

text \<open>
  Exceptions are values. \<open>RuntimeError\<close> carries the debug message and the user message
  of the source. \<open>NullDereference\<close> is not a C++ exception: it is the model's value for
  a member call through a null pointer, which no constructed instance reaches.
\<close>

datatype exception =
    RuntimeError string string
  | LogicError
  | FileParseError
  | NullDereference

text \<open>\<open>QString::arg\<close> on a number: the decimal numeral.\<close>

fun number :: "nat \<Rightarrow> string" where
  "number n = (if n < 10 then [''0123456789'' ! n]
               else number (n div 10) @ [''0123456789'' ! (n mod 10)])"

declare number.simps [simp del]

definition quoted :: "string \<Rightarrow> string" where
  "quoted s = [CHR 0x22] @ s @ [CHR 0x22]"

subsection \<open>QHash\<close>

text \<open>
  A \<open>QHash\<close> is kept as the list of its entries. \<open>insert\<close> replaces the value of a key
  that is present and adds an entry otherwise; \<open>count\<close> is the number of entries.
\<close>

type_synonym ('k, 'v) QHash = "('k \<times> 'v) list"

definition keys :: "('k, 'v) QHash \<Rightarrow> 'k list" where
  "keys h = map fst h"

definition contains :: "('k, 'v) QHash \<Rightarrow> 'k \<Rightarrow> bool" where
  "contains h k = (k \<in> set (keys h))"

definition count :: "('k, 'v) QHash \<Rightarrow> nat" where
  "count h = length h"

fun insert_hash :: "'k \<Rightarrow> 'v \<Rightarrow> ('k, 'v) QHash \<Rightarrow> ('k, 'v) QHash" where
  "insert_hash k v [] = [(k, v)]"
| "insert_hash k v ((k', v') # h) =
     (if k' = k then (k, v) # h else (k', v') # insert_hash k v h)"

fun value_of :: "('k, 'v) QHash \<Rightarrow> 'k \<Rightarrow> 'v option" where
  "value_of [] k = None"
| "value_of ((k', v) # h) k = (if k' = k then Some v else value_of h k)"

subsection \<open>XmlDomElement\<close>

text \<open>
  Modelled from the spec: XmlDomElement (librepcbcommon/fileio, not under src/) is the
  "XML element" of the external interface: a name, attributes (name and text) and child
  elements. \<open>getAttribute<T>\<close> throws when the attribute is missing or its text is not a
  \<open>T\<close>; \<open>getFirstChild(name, true)\<close> throws when there is no such child. The conversion
  between a \<open>T\<close> and its text is a parameter.
\<close>

datatype XmlDomElement =
  XmlDomElement (getName: string) (attributes: "(string, string) QHash")
    (childs: "XmlDomElement list")

definition getAttribute ::
  "(string \<Rightarrow> 'a option) \<Rightarrow> XmlDomElement \<Rightarrow> string \<Rightarrow> exception + 'a" where
  "getAttribute fromText e name =
     (case value_of (attributes e) name of
        None \<Rightarrow> Inl FileParseError
      | Some text \<Rightarrow>
          (case fromText text of None \<Rightarrow> Inl FileParseError | Some v \<Rightarrow> Inr v))"

definition setAttribute ::
  "('a \<Rightarrow> string) \<Rightarrow> string \<Rightarrow> 'a \<Rightarrow> XmlDomElement \<Rightarrow> XmlDomElement" where
  "setAttribute toText name v e =
     XmlDomElement (getName e) (insert_hash name (toText v) (attributes e)) (childs e)"

definition getFirstChild :: "XmlDomElement \<Rightarrow> string \<Rightarrow> exception + XmlDomElement" where
  "getFirstChild e name =
     (case find (\<lambda>c. getName c = name) (childs e) of
        None \<Rightarrow> Inl FileParseError
      | Some c \<Rightarrow> Inr c)"

text \<open>
  \<open>appendChild(name)\<close> adds a new empty element as last child and returns a pointer to it;
  the model returns the index of the child, and \<open>at_child\<close> is a member call through
  that pointer.
\<close>

definition appendChild :: "string \<Rightarrow> XmlDomElement \<Rightarrow> XmlDomElement \<times> nat" where
  "appendChild name e =
     (XmlDomElement (getName e) (attributes e) (childs e @ [XmlDomElement name [] []]),
      length (childs e))"

definition at_child ::
  "nat \<Rightarrow> (XmlDomElement \<Rightarrow> XmlDomElement) \<Rightarrow> XmlDomElement \<Rightarrow> XmlDomElement" where
  "at_child i f e =
     (if i < length (childs e)
      then XmlDomElement (getName e) (attributes e) ((childs e)[i := f (childs e ! i)])
      else e)"

subsection \<open>Library, circuit and project\<close>

text \<open>
  Modelled from the spec: the library symbol with its pins, the symbol-variant item with
  its pin-signal map, the component instance, and the circuit and project library in
  which identifiers are resolved. None of these classes is under src/. Each lookup
  returns the object with the given identifier, or the null pointer (\<open>None\<close>).
\<close>

record SymbolPin =
  SymbolPin_getUuid :: uuid

record Symbol =
  Symbol_getUuid :: uuid
  Symbol_getPins :: "SymbolPin list"

record ComponentSymbolVariantItem =
  Item_getUuid :: uuid
  Item_getSymbolUuid :: uuid
  Item_getSuffix :: string
  Item_getPinSignalMap :: "(uuid, uuid) QHash"

record ComponentSymbolVariant =
  SymbVar_getItems :: "ComponentSymbolVariantItem list"

record ComponentInstance =
  Cmp_getUuid :: uuid
  Cmp_getName :: string
  Cmp_getSymbolVariant :: ComponentSymbolVariant

record Circuit =
  Circuit_getComponentInstances :: "ComponentInstance list"

record ProjectLibrary =
  Library_getSymbols :: "Symbol list"

record Project =
  Project_getCircuit :: Circuit
  Project_getLibrary :: ProjectLibrary

record Schematic =
  Schematic_getProject :: Project

definition getComponentInstanceByUuid :: "Circuit \<Rightarrow> uuid \<Rightarrow> ComponentInstance option" where
  "getComponentInstanceByUuid c u =
     find (\<lambda>ci. Cmp_getUuid ci = u) (Circuit_getComponentInstances c)"

definition getItemByUuid ::
  "ComponentSymbolVariant \<Rightarrow> uuid \<Rightarrow> ComponentSymbolVariantItem option" where
  "getItemByUuid v u = find (\<lambda>i. Item_getUuid i = u) (SymbVar_getItems v)"

definition getSymbol :: "ProjectLibrary \<Rightarrow> uuid \<Rightarrow> Symbol option" where
  "getSymbol l u = find (\<lambda>s. Symbol_getUuid s = u) (Library_getSymbols l)"

section \<open>SI\_Symbol\<close>

text \<open>
  The members of the class. \<open>mSchematic\<close> is a C++ reference and is always bound; the
  three pointers are options. The graphics item keeps the position and rotation it was
  given (the source converts them to pixels and degrees). A pin object is a value of the
  type parameter \<open>'pin\<close>.
\<close>

record SGI_Symbol =
  SGI_pos :: Point
  SGI_rotation :: Angle

record 'pin SI_Symbol =
  mSchematic :: Schematic
  mComponentInstance :: "ComponentInstance option"
  mSymbVarItem :: "ComponentSymbolVariantItem option"
  mSymbol :: "Symbol option"
  mGraphicsItem :: "SGI_Symbol option"
  mUuid :: uuid
  mPosition :: Point
  mRotation :: Angle
  mPins :: "(uuid, 'pin) QHash"

text \<open>
  Member functions of other classes that \<^verbatim>\<open>si_symbol.cpp\<close> calls and whose bodies are not
  under src/. A call that may throw returns the exception, if any, beside the object after
  the call. A member function of a pin is given the symbol that the pin belongs to. The
  state of the component instance's symbol registry and of the graphics scene are not
  members of the class and are not tracked.
\<close>

record ('pin, 'scene) externals =
  SI_SymbolPin_new :: "'pin SI_Symbol \<Rightarrow> uuid \<Rightarrow> exception + 'pin"
  SI_SymbolPin_updatePosition :: "'pin SI_Symbol \<Rightarrow> 'pin \<Rightarrow> exception option \<times> 'pin"
  SI_SymbolPin_addToSchematic ::
    "'pin SI_Symbol \<Rightarrow> 'pin \<Rightarrow> 'scene \<Rightarrow> exception option \<times> 'pin"
  SI_SymbolPin_removeFromSchematic ::
    "'pin SI_Symbol \<Rightarrow> 'pin \<Rightarrow> 'scene \<Rightarrow> exception option \<times> 'pin"
  Cmp_registerSymbol :: "ComponentInstance \<Rightarrow> 'pin SI_Symbol \<Rightarrow> exception option"
  Cmp_unregisterSymbol :: "ComponentInstance \<Rightarrow> 'pin SI_Symbol \<Rightarrow> exception option"
  Cmp_getAttributeValue ::
    "ComponentInstance \<Rightarrow> string \<Rightarrow> string \<Rightarrow> bool \<Rightarrow> string \<Rightarrow> bool \<times> string"
  Schematic_getAttributeValue ::
    "Schematic \<Rightarrow> string \<Rightarrow> string \<Rightarrow> bool \<Rightarrow> string \<Rightarrow> bool \<times> string"
  Uuid_fromText :: "string \<Rightarrow> uuid option"
  Uuid_toText :: "uuid \<Rightarrow> string"
  Length_fromText :: "string \<Rightarrow> Length option"
  Length_toText :: "Length \<Rightarrow> string"
  Angle_fromText :: "string \<Rightarrow> Angle option"
  Angle_toText :: "Angle \<Rightarrow> string"
  Point_rotated :: "Point \<Rightarrow> Angle \<Rightarrow> Point \<Rightarrow> Point"

subsection \<open>Private methods\<close>

definition checkAttributesValidity :: "'pin SI_Symbol \<Rightarrow> bool" where
  "checkAttributesValidity s =
     (if mSymbVarItem s = None then False
      else if mSymbol s = None then False
      else if isNull (mUuid s) then False
      else if mComponentInstance s = None then False
      else True)"

subsection \<open>Constructors\<close>

text \<open>
  The loop of \<open>init\<close> over the pins of the library symbol. After the loop \<open>init\<close> connects
  the \<open>attributesChanged\<close> signal of the component instance to a slot that repaints the
  graphics item; the connection writes no member and is left out, as are the destructor,
  \<open>setSelected\<close> and \<open>getGrabAreaScenePx\<close>.
\<close>

fun init_pins ::
  "('pin, 'scene) externals \<Rightarrow> SymbolPin list \<Rightarrow> 'pin SI_Symbol \<Rightarrow> exception + 'pin SI_Symbol"
  where
  "init_pins ext [] s = Inr s"
| "init_pins ext (libPin # rest) s =
     (case SI_SymbolPin_new ext s (SymbolPin_getUuid libPin) of
        Inl e \<Rightarrow> Inl e
      | Inr pin \<Rightarrow>
          if contains (mPins s) (SymbolPin_getUuid libPin)
          then Inl (RuntimeError (toStr (SymbolPin_getUuid libPin))
                 (''The symbol pin UUID '' @ quoted (toStr (SymbolPin_getUuid libPin))
                    @ '' is defined multiple times.''))
          else
            (case mSymbVarItem s of
               None \<Rightarrow> Inl NullDereference
             | Some item \<Rightarrow>
                 if \<not> contains (Item_getPinSignalMap item) (SymbolPin_getUuid libPin)
                 then Inl (RuntimeError (toStr (SymbolPin_getUuid libPin))
                        (''Symbol pin UUID '' @ quoted (toStr (SymbolPin_getUuid libPin))
                           @ '' not found in pin-signal-map.''))
                 else init_pins ext rest
                        (s\<lparr>mPins := insert_hash (SymbolPin_getUuid libPin) pin (mPins s)\<rparr>)))"

definition init ::
  "('pin, 'scene) externals \<Rightarrow> 'pin SI_Symbol \<Rightarrow> uuid \<Rightarrow> exception + 'pin SI_Symbol" where
  "init ext s symbVarItemUuid =
     (case mComponentInstance s of
        None \<Rightarrow> Inl NullDereference
      | Some ci \<Rightarrow>
     (case getItemByUuid (Cmp_getSymbolVariant ci) symbVarItemUuid of
        None \<Rightarrow>
          Inl (RuntimeError (toStr symbVarItemUuid)
            (''The symbol variant item UUID '' @ quoted (toStr symbVarItemUuid)
               @ '' is invalid.''))
      | Some item \<Rightarrow>
     (case getSymbol (Project_getLibrary (Schematic_getProject (mSchematic s)))
             (Item_getSymbolUuid item) of
        None \<Rightarrow>
          Inl (RuntimeError (toStr (Item_getSymbolUuid item))
            (''No symbol with the UUID '' @ quoted (toStr (Item_getSymbolUuid item))
               @ '' found in the project's library.''))
      | Some symbol \<Rightarrow>
     (case init_pins ext (Symbol_getPins symbol)
             (s\<lparr>mSymbVarItem := Some item, mSymbol := Some symbol,
                mGraphicsItem :=
                  Some \<lparr>SGI_pos = mPosition s, SGI_rotation = - mRotation s\<rparr>\<rparr>) of
        Inl e \<Rightarrow> Inl e
      | Inr s' \<Rightarrow>
          if count (mPins s') \<noteq> count (Item_getPinSignalMap item)
          then Inl (RuntimeError
                 (number (count (mPins s')) @ ''!=''
                    @ number (count (Item_getPinSignalMap item)))
                 (''The pin count of the symbol instance '' @ quoted (toStr (mUuid s'))
                    @ '' does not match with the pin-signal-map''))
          else if \<not> checkAttributesValidity s' then Inl LogicError
          else Inr s'))))"

text \<open>The constructor that loads an instance from saved project data.\<close>

definition SI_Symbol_xml ::
  "('pin, 'scene) externals \<Rightarrow> Schematic \<Rightarrow> XmlDomElement \<Rightarrow> exception + 'pin SI_Symbol" where
  "SI_Symbol_xml ext schematic domElement =
     (case getAttribute (Uuid_fromText ext) domElement ''uuid'' of
        Inl e \<Rightarrow> Inl e
      | Inr uuid \<Rightarrow>
     (case getAttribute (Uuid_fromText ext) domElement ''component_instance'' of
        Inl e \<Rightarrow> Inl e
      | Inr gcUuid \<Rightarrow>
     (case getComponentInstanceByUuid
             (Project_getCircuit (Schematic_getProject schematic)) gcUuid of
        None \<Rightarrow>
          Inl (RuntimeError (toStr gcUuid)
            (''No component with the UUID '' @ quoted (toStr gcUuid)
               @ '' found in the circuit!''))
      | Some ci \<Rightarrow>
     (case getFirstChild domElement ''position'' of
        Inl e \<Rightarrow> Inl e
      | Inr positionX \<Rightarrow>
     (case getAttribute (Length_fromText ext) positionX ''x'' of
        Inl e \<Rightarrow> Inl e
      | Inr x \<Rightarrow>
     (case getFirstChild domElement ''position'' of
        Inl e \<Rightarrow> Inl e
      | Inr positionY \<Rightarrow>
     (case getAttribute (Length_fromText ext) positionY ''y'' of
        Inl e \<Rightarrow> Inl e
      | Inr y \<Rightarrow>
     (case getFirstChild domElement ''position'' of
        Inl e \<Rightarrow> Inl e
      | Inr positionR \<Rightarrow>
     (case getAttribute (Angle_fromText ext) positionR ''rotation'' of
        Inl e \<Rightarrow> Inl e
      | Inr rotation \<Rightarrow>
     (case getAttribute (Uuid_fromText ext) domElement ''symbol_item'' of
        Inl e \<Rightarrow> Inl e
      | Inr symbVarItemUuid \<Rightarrow>
          init ext
            \<lparr>mSchematic = schematic, mComponentInstance = Some ci, mSymbVarItem = None,
             mSymbol = None, mGraphicsItem = None, mUuid = uuid,
             mPosition = \<lparr>getX = x, getY = y\<rparr>, mRotation = rotation, mPins = []\<rparr>
            symbVarItemUuid))))))))))"

text \<open>
  The constructor for a symbol placed by the user. \<open>random\<close> is the value that
  \<open>Uuid::createRandom()\<close> returns in this call.
\<close>

definition SI_Symbol_new ::
  "('pin, 'scene) externals \<Rightarrow> Schematic \<Rightarrow> ComponentInstance \<Rightarrow> uuid \<Rightarrow> Point \<Rightarrow> Angle
     \<Rightarrow> uuid \<Rightarrow> exception + 'pin SI_Symbol" where
  "SI_Symbol_new ext schematic cmpInstance symbolItem position rotation random =
     init ext
       \<lparr>mSchematic = schematic, mComponentInstance = Some cmpInstance, mSymbVarItem = None,
        mSymbol = None, mGraphicsItem = None, mUuid = random,
        mPosition = position, mRotation = rotation, mPins = []\<rparr>
       symbolItem"

subsection \<open>Getters\<close>

definition SI_Symbol_getProject :: "'pin SI_Symbol \<Rightarrow> Project" where
  "SI_Symbol_getProject s = Schematic_getProject (mSchematic s)"

text \<open>\<open>None\<close> stands for the call through a null pointer.\<close>

definition SI_Symbol_getName :: "'pin SI_Symbol \<Rightarrow> string option" where
  "SI_Symbol_getName s =
     (case mComponentInstance s of
        None \<Rightarrow> None
      | Some ci \<Rightarrow>
          (case mSymbVarItem s of
             None \<Rightarrow> None
           | Some item \<Rightarrow> Some (Cmp_getName ci @ Item_getSuffix item)))"

subsection \<open>Setters and general methods\<close>

text \<open>
  \<open>foreach (SI_SymbolPin* pin, mPins) pin->f()\<close>: the pins are visited in the order of the
  hash; an exception ends the loop. The result is the exception, if any, and the hash with
  the pin objects after the calls.
\<close>

fun foreach_pin ::
  "('pin \<Rightarrow> exception option \<times> 'pin) \<Rightarrow> (uuid, 'pin) QHash
     \<Rightarrow> exception option \<times> (uuid, 'pin) QHash" where
  "foreach_pin f [] = (None, [])"
| "foreach_pin f ((k, pin) # h) =
     (case f pin of
        (Some e, pin') \<Rightarrow> (Some e, (k, pin') # h)
      | (None, pin') \<Rightarrow>
          (case foreach_pin f h of (r, h') \<Rightarrow> (r, (k, pin') # h')))"

definition setPosition ::
  "('pin, 'scene) externals \<Rightarrow> 'pin SI_Symbol \<Rightarrow> Point \<Rightarrow> exception option \<times> 'pin SI_Symbol"
  where
  "setPosition ext s newPos =
     (case mGraphicsItem s of
        None \<Rightarrow> (Some NullDereference, s\<lparr>mPosition := newPos\<rparr>)
      | Some g \<Rightarrow>
          (let s1 = s\<lparr>mPosition := newPos, mGraphicsItem := Some (g\<lparr>SGI_pos := newPos\<rparr>)\<rparr>
           in case foreach_pin (SI_SymbolPin_updatePosition ext s1) (mPins s1) of
                (r, pins) \<Rightarrow> (r, s1\<lparr>mPins := pins\<rparr>)))"

definition setRotation ::
  "('pin, 'scene) externals \<Rightarrow> 'pin SI_Symbol \<Rightarrow> Angle \<Rightarrow> exception option \<times> 'pin SI_Symbol"
  where
  "setRotation ext s newRotation =
     (case mGraphicsItem s of
        None \<Rightarrow> (Some NullDereference, s\<lparr>mRotation := newRotation\<rparr>)
      | Some g \<Rightarrow>
          (let s1 = s\<lparr>mRotation := newRotation,
                      mGraphicsItem := Some (g\<lparr>SGI_rotation := - newRotation\<rparr>)\<rparr>
           in case foreach_pin (SI_SymbolPin_updatePosition ext s1) (mPins s1) of
                (r, pins) \<Rightarrow> (r, s1\<lparr>mPins := pins\<rparr>)))"

definition addToSchematic ::
  "('pin, 'scene) externals \<Rightarrow> 'pin SI_Symbol \<Rightarrow> 'scene \<Rightarrow> exception option \<times> 'pin SI_Symbol"
  where
  "addToSchematic ext s scene =
     (case mComponentInstance s of
        None \<Rightarrow> (Some NullDereference, s)
      | Some ci \<Rightarrow>
          (case Cmp_registerSymbol ext ci s of
             Some e \<Rightarrow> (Some e, s)
           | None \<Rightarrow>
               (case mGraphicsItem s of
                  None \<Rightarrow> (Some NullDereference, s)
                | Some g \<Rightarrow>
                    (case foreach_pin (\<lambda>pin. SI_SymbolPin_addToSchematic ext s pin scene)
                            (mPins s) of
                       (r, pins) \<Rightarrow> (r, s\<lparr>mPins := pins\<rparr>)))))"

definition removeFromSchematic ::
  "('pin, 'scene) externals \<Rightarrow> 'pin SI_Symbol \<Rightarrow> 'scene \<Rightarrow> exception option \<times> 'pin SI_Symbol"
  where
  "removeFromSchematic ext s scene =
     (case mComponentInstance s of
        None \<Rightarrow> (Some NullDereference, s)
      | Some ci \<Rightarrow>
          (case Cmp_unregisterSymbol ext ci s of
             Some e \<Rightarrow> (Some e, s)
           | None \<Rightarrow>
               (case mGraphicsItem s of
                  None \<Rightarrow> (Some NullDereference, s)
                | Some g \<Rightarrow>
                    (case foreach_pin (\<lambda>pin. SI_SymbolPin_removeFromSchematic ext s pin scene)
                            (mPins s) of
                       (r, pins) \<Rightarrow> (r, s\<lparr>mPins := pins\<rparr>)))))"

definition serializeToXmlDomElement ::
  "('pin, 'scene) externals \<Rightarrow> 'pin SI_Symbol \<Rightarrow> exception + XmlDomElement" where
  "serializeToXmlDomElement ext s =
     (if \<not> checkAttributesValidity s then Inl LogicError
      else
        (case mComponentInstance s of
           None \<Rightarrow> Inl NullDereference
         | Some ci \<Rightarrow>
             (case mSymbVarItem s of
                None \<Rightarrow> Inl NullDereference
              | Some item \<Rightarrow>
                  (let root = XmlDomElement ''symbol'' [] [];
                       root = setAttribute (Uuid_toText ext) ''uuid'' (mUuid s) root;
                       root = setAttribute (Uuid_toText ext) ''component_instance''
                                (Cmp_getUuid ci) root;
                       root = setAttribute (Uuid_toText ext) ''symbol_item''
                                (Item_getUuid item) root;
                       (root, position) = appendChild ''position'' root;
                       root = at_child position
                                (setAttribute (Length_toText ext) ''x'' (getX (mPosition s)))
                                root;
                       root = at_child position
                                (setAttribute (Length_toText ext) ''y'' (getY (mPosition s)))
                                root;
                       root = at_child position
                                (setAttribute (Angle_toText ext) ''rotation'' (mRotation s))
                                root
                   in Inr root))))"

subsection \<open>Helper methods\<close>

definition mapToScene :: "('pin, 'scene) externals \<Rightarrow> 'pin SI_Symbol \<Rightarrow> Point \<Rightarrow> Point" where
  "mapToScene ext s relativePos =
     Point_rotated ext (Point_plus (mPosition s) relativePos) (mRotation s) (mPosition s)"

text \<open>
  \<open>getAttributeValue\<close> returns its \<open>bool\<close>, the content of the output parameter \<open>value\<close>
  after the call, and the parents it has asked, in the order of the calls. \<open>None\<close> stands
  for the call through a null pointer.
\<close>

datatype parent = AskedComponentInstance | AskedSchematic

definition getAttributeValue ::
  "('pin, 'scene) externals \<Rightarrow> 'pin SI_Symbol \<Rightarrow> string \<Rightarrow> string \<Rightarrow> bool \<Rightarrow> string
     \<Rightarrow> (bool \<times> string \<times> parent list) option" where
  "getAttributeValue ext s attrNS attrKey passToParents val =
     (if (attrNS = ''SYM'' \<or> attrNS = []) \<and> attrKey = ''NAME''
      then (case SI_Symbol_getName s of
              None \<Rightarrow> None
            | Some name \<Rightarrow> Some (True, name, []))
      else if attrNS \<noteq> ''SYM'' \<and> passToParents
      then
        (case mComponentInstance s of
           None \<Rightarrow> None
         | Some ci \<Rightarrow>
             (case Cmp_getAttributeValue ext ci attrNS attrKey False val of
                (True, val1) \<Rightarrow> Some (True, val1, [AskedComponentInstance])
              | (False, val1) \<Rightarrow>
                  (case Schematic_getAttributeValue ext (mSchematic s) attrNS attrKey True
                          val1 of
                     (True, val2) \<Rightarrow>
                       Some (True, val2, [AskedComponentInstance, AskedSchematic])
                   | (False, val2) \<Rightarrow>
                       Some (False, val2, [AskedComponentInstance, AskedSchematic]))))
      else Some (False, val, []))"

subsection \<open>The public operations on a constructed instance\<close>

text \<open>
  The calls a client can make on an instance, and the instance after such a call, whether
  the call returned or threw. \<open>serializeToXmlDomElement\<close> is a \<open>const\<close> member function.
\<close>

datatype 'scene operation =
    SetPosition Point
  | SetRotation Angle
  | AddToSchematic 'scene
  | RemoveFromSchematic 'scene
  | SerializeToXmlDomElement

fun after ::
  "('pin, 'scene) externals \<Rightarrow> 'pin SI_Symbol \<Rightarrow> 'scene operation \<Rightarrow> 'pin SI_Symbol" where
  "after ext s (SetPosition newPos) = snd (setPosition ext s newPos)"
| "after ext s (SetRotation newRotation) = snd (setRotation ext s newRotation)"
| "after ext s (AddToSchematic scene) = snd (addToSchematic ext s scene)"
| "after ext s (RemoveFromSchematic scene) = snd (removeFromSchematic ext s scene)"
| "after ext s SerializeToXmlDomElement = s"

section \<open>The properties, as predicates\<close>

text \<open>
  The pin set of an instance matches the pin-signal map of its symbol-variant item: no pin
  identifier occurs twice, the identifiers are those of the map, and the counts agree.
\<close>

definition pins_match :: "'pin SI_Symbol \<Rightarrow> bool" where
  "pins_match s =
     (case mSymbVarItem s of
        None \<Rightarrow> False
      | Some item \<Rightarrow>
          distinct (keys (mPins s)) \<and>
          set (keys (mPins s)) = set (keys (Item_getPinSignalMap item)) \<and>
          count (mPins s) = count (Item_getPinSignalMap item))"

text \<open>
  What \<open>init\<close> establishes and every operation keeps: the three pointers are set, the item
  and the symbol are the ones their identifiers resolve to, a pin object exists for each
  pin of the library symbol, and these pins fit the pin-signal map.
\<close>

definition constructed :: "'pin SI_Symbol \<Rightarrow> bool" where
  "constructed s =
     (case (mComponentInstance s, mSymbVarItem s, mSymbol s) of
        (Some ci, Some item, Some symbol) \<Rightarrow>
          getItemByUuid (Cmp_getSymbolVariant ci) (Item_getUuid item) = Some item \<and>
          getSymbol (Project_getLibrary (Schematic_getProject (mSchematic s)))
            (Item_getSymbolUuid item) = Some symbol \<and>
          keys (mPins s) = map SymbolPin_getUuid (Symbol_getPins symbol) \<and>
          distinct (keys (mPins s)) \<and>
          list_all (\<lambda>p. contains (Item_getPinSignalMap item) (SymbolPin_getUuid p))
            (Symbol_getPins symbol) \<and>
          count (mPins s) = count (Item_getPinSignalMap item) \<and>
          \<not> isNull (mUuid s) \<and>
          mGraphicsItem s \<noteq> None
      | _ \<Rightarrow> False)"

text \<open>
  The \<open>SI_SymbolPin\<close> constructor returns a pin object at each call that the loop of \<open>init\<close>
  makes for the pins \<open>pins\<close> when it is entered in the state \<open>s\<close>.
\<close>

fun pins_constructible ::
  "('pin, 'scene) externals \<Rightarrow> SymbolPin list \<Rightarrow> 'pin SI_Symbol \<Rightarrow> bool" where
  "pins_constructible ext [] s = True"
| "pins_constructible ext (libPin # rest) s =
     (case SI_SymbolPin_new ext s (SymbolPin_getUuid libPin) of
        Inl e \<Rightarrow> False
      | Inr pin \<Rightarrow>
          pins_constructible ext rest
            (s\<lparr>mPins := insert_hash (SymbolPin_getUuid libPin) pin (mPins s)\<rparr>))"

text \<open>An exception of the program is raised: the call neither returns nor crashes.\<close>

definition raises :: "exception + 'a \<Rightarrow> bool" where
  "raises r = (case r of Inl e \<Rightarrow> e \<noteq> NullDereference | Inr x \<Rightarrow> False)"

text \<open>
  The symbol-variant item with identifier \<open>u\<close> of component instance \<open>ci\<close>, or the library
  symbol that the item names, does not exist.
\<close>

definition unresolved :: "Schematic \<Rightarrow> ComponentInstance \<Rightarrow> uuid \<Rightarrow> bool" where
  "unresolved schematic ci u =
     (case getItemByUuid (Cmp_getSymbolVariant ci) u of
        None \<Rightarrow> True
      | Some item \<Rightarrow>
          getSymbol (Project_getLibrary (Schematic_getProject schematic))
            (Item_getSymbolUuid item) = None)"

text \<open>
  The saved element names a component instance that is not in the circuit, or an item or
  symbol that is unresolved.
\<close>

definition xml_unresolved ::
  "('pin, 'scene) externals \<Rightarrow> Schematic \<Rightarrow> XmlDomElement \<Rightarrow> bool" where
  "xml_unresolved ext schematic domElement =
     (case getAttribute (Uuid_fromText ext) domElement ''component_instance'' of
        Inl e \<Rightarrow> False
      | Inr gcUuid \<Rightarrow>
          (case getComponentInstanceByUuid
                  (Project_getCircuit (Schematic_getProject schematic)) gcUuid of
             None \<Rightarrow> True
           | Some ci \<Rightarrow>
               (case getAttribute (Uuid_fromText ext) domElement ''symbol_item'' of
                  Inl e \<Rightarrow> False
                | Inr u \<Rightarrow> unresolved schematic ci u)))"

text \<open>The saved element names component instance \<open>ci\<close> of the circuit and the item \<open>u\<close>.\<close>

definition xml_refers ::
  "('pin, 'scene) externals \<Rightarrow> Schematic \<Rightarrow> XmlDomElement \<Rightarrow> ComponentInstance \<Rightarrow> uuid
     \<Rightarrow> bool" where
  "xml_refers ext schematic domElement ci u =
     (case getAttribute (Uuid_fromText ext) domElement ''component_instance'' of
        Inl e \<Rightarrow> False
      | Inr gcUuid \<Rightarrow>
          getComponentInstanceByUuid
            (Project_getCircuit (Schematic_getProject schematic)) gcUuid = Some ci \<and>
          getAttribute (Uuid_fromText ext) domElement ''symbol_item'' = Inr u)"

text \<open>
  The pins of the library symbol and the pin-signal map of the item disagree: a pin is not
  in the map, a pin identifier occurs twice, or the map has more entries than the symbol
  has pins.
\<close>

definition pins_disagree :: "Symbol \<Rightarrow> ComponentSymbolVariantItem \<Rightarrow> bool" where
  "pins_disagree symbol item =
     (list_ex (\<lambda>p. \<not> contains (Item_getPinSignalMap item) (SymbolPin_getUuid p))
        (Symbol_getPins symbol) \<or>
      \<not> distinct (map SymbolPin_getUuid (Symbol_getPins symbol)) \<or>
      length (Symbol_getPins symbol) < count (Item_getPinSignalMap item))"

section \<open>A small project\<close>

text \<open>
  One resistor symbol with two pins; a component instance with three symbol-variant items:
  one that fits the symbol, one whose pin-signal map lacks a pin, one that names a symbol
  the library does not have.
\<close>

definition resistor :: Symbol where
  "resistor =
     \<lparr>Symbol_getUuid = Uuid ''sym-resistor'',
      Symbol_getPins = [\<lparr>SymbolPin_getUuid = Uuid ''pin-1''\<rparr>,
                        \<lparr>SymbolPin_getUuid = Uuid ''pin-2''\<rparr>]\<rparr>"

definition item_ok :: ComponentSymbolVariantItem where
  "item_ok =
     \<lparr>Item_getUuid = Uuid ''item-ok'', Item_getSymbolUuid = Uuid ''sym-resistor'',
      Item_getSuffix = ''-A'',
      Item_getPinSignalMap = [(Uuid ''pin-2'', Uuid ''sig-b''), (Uuid ''pin-1'', Uuid ''sig-a'')]\<rparr>"

definition item_short :: ComponentSymbolVariantItem where
  "item_short =
     \<lparr>Item_getUuid = Uuid ''item-short'', Item_getSymbolUuid = Uuid ''sym-resistor'',
      Item_getSuffix = ''-B'',
      Item_getPinSignalMap = [(Uuid ''pin-1'', Uuid ''sig-a'')]\<rparr>"

definition item_lost :: ComponentSymbolVariantItem where
  "item_lost =
     \<lparr>Item_getUuid = Uuid ''item-lost'', Item_getSymbolUuid = Uuid ''sym-missing'',
      Item_getSuffix = ''-C'',
      Item_getPinSignalMap = []\<rparr>"

definition r1 :: ComponentInstance where
  "r1 =
     \<lparr>Cmp_getUuid = Uuid ''cmp-r1'', Cmp_getName = ''R1'',
      Cmp_getSymbolVariant = \<lparr>SymbVar_getItems = [item_ok, item_short, item_lost]\<rparr>\<rparr>"

definition sheet :: Schematic where
  "sheet =
     \<lparr>Schematic_getProject =
        \<lparr>Project_getCircuit = \<lparr>Circuit_getComponentInstances = [r1]\<rparr>,
         Project_getLibrary = \<lparr>Library_getSymbols = [resistor]\<rparr>\<rparr>\<rparr>"

text \<open>A second sheet, of a project with the same library and an empty circuit.\<close>

definition other_sheet :: Schematic where
  "other_sheet =
     \<lparr>Schematic_getProject =
        \<lparr>Project_getCircuit = \<lparr>Circuit_getComponentInstances = []\<rparr>,
         Project_getLibrary = \<lparr>Library_getSymbols = [resistor]\<rparr>\<rparr>\<rparr>"

text \<open>Integers are written in decimal in this project's files.\<close>

fun digits_value :: "nat \<Rightarrow> string \<Rightarrow> nat option" where
  "digits_value acc [] = Some acc"
| "digits_value acc (c # cs) =
     (if c \<in> set ''0123456789''
      then digits_value (10 * acc + (of_char c - 48)) cs
      else None)"

definition int_toText :: "int \<Rightarrow> string" where
  "int_toText n = (if n < 0 then CHR ''-'' # number (nat (- n)) else number (nat n))"

definition int_fromText :: "string \<Rightarrow> int option" where
  "int_fromText t =
     (case t of
        [] \<Rightarrow> None
      | c # cs \<Rightarrow>
          if c = CHR ''-''
          then (if cs = [] then None else map_option (\<lambda>n. - int n) (digits_value 0 cs))
          else map_option int (digits_value 0 t))"

text \<open>
  The other classes of the small project: a pin object is its pin identifier, no call
  throws, the component instance knows its \<open>CMP::VALUE\<close> and the schematic its
  \<open>SCH::PAGE\<close>, and a point is rotated in steps of 90 degrees.
\<close>

definition quarter_turns :: "nat \<Rightarrow> Point \<Rightarrow> Point" where
  "quarter_turns n p = ((\<lambda>q. \<lparr>getX = - getY q, getY = getX q\<rparr>) ^^ n) p"

definition plain :: "(uuid, unit) externals" where
  "plain =
     \<lparr>SI_SymbolPin_new = (\<lambda>s u. Inr u),
      SI_SymbolPin_updatePosition = (\<lambda>s pin. (None, pin)),
      SI_SymbolPin_addToSchematic = (\<lambda>s pin scene. (None, pin)),
      SI_SymbolPin_removeFromSchematic = (\<lambda>s pin scene. (None, pin)),
      Cmp_registerSymbol = (\<lambda>ci s. None),
      Cmp_unregisterSymbol = (\<lambda>ci s. None),
      Cmp_getAttributeValue =
        (\<lambda>ci attrNS attrKey passToParents val.
           if (attrNS = ''CMP'' \<or> attrNS = []) \<and> attrKey = ''VALUE''
           then (True, ''10k'') else (False, val)),
      Schematic_getAttributeValue =
        (\<lambda>schematic attrNS attrKey passToParents val.
           if (attrNS = ''SCH'' \<or> attrNS = []) \<and> attrKey = ''PAGE''
           then (True, ''1'') else (False, val)),
      Uuid_fromText = (\<lambda>t. if t = [] then None else Some (Uuid t)),
      Uuid_toText = toStr,
      Length_fromText = int_fromText,
      Length_toText = int_toText,
      Angle_fromText = int_fromText,
      Angle_toText = int_toText,
      Point_rotated =
        (\<lambda>p angle center.
           Point_plus center
             (quarter_turns (nat ((angle div 90000000) mod 4))
                \<lparr>getX = getX p - getX center, getY = getY p - getY center\<rparr>))\<rparr>"

definition saved :: XmlDomElement where
  "saved =
     XmlDomElement ''symbol''
       [(''uuid'', ''si-1''), (''component_instance'', ''cmp-r1''), (''symbol_item'', ''item-ok'')]
       [XmlDomElement ''position''
          [(''x'', ''2540000''), (''y'', ''-1270000''), (''rotation'', ''90000000'')] []]"

definition placed :: "uuid SI_Symbol" where
  "placed =
     \<lparr>mSchematic = sheet, mComponentInstance = Some r1, mSymbVarItem = Some item_ok,
      mSymbol = Some resistor,
      mGraphicsItem =
        Some \<lparr>SGI_pos = \<lparr>getX = 2540000, getY = - 1270000\<rparr>, SGI_rotation = - 90000000\<rparr>,
      mUuid = Uuid ''si-1'',
      mPosition = \<lparr>getX = 2540000, getY = - 1270000\<rparr>, mRotation = 90000000,
      mPins = [(Uuid ''pin-1'', Uuid ''pin-1''), (Uuid ''pin-2'', Uuid ''pin-2'')]\<rparr>"

text \<open>
  Two more saved elements: one names an item whose pin-signal map lacks a pin, one names a
  component instance that is not in the circuit.
\<close>

definition saved_short :: XmlDomElement where
  "saved_short =
     XmlDomElement ''symbol''
       [(''uuid'', ''si-2''), (''component_instance'', ''cmp-r1''),
        (''symbol_item'', ''item-short'')]
       [XmlDomElement ''position'' [(''x'', ''0''), (''y'', ''0''), (''rotation'', ''0'')] []]"

definition saved_stray :: XmlDomElement where
  "saved_stray =
     XmlDomElement ''symbol''
       [(''uuid'', ''si-3''), (''component_instance'', ''cmp-r9''), (''symbol_item'', ''item-ok'')]
       [XmlDomElement ''position'' [(''x'', ''0''), (''y'', ''0''), (''rotation'', ''0'')] []]"

text \<open>The instance \<open>placed\<close> after it has been moved.\<close>

definition moved :: "uuid SI_Symbol" where
  "moved =
     placed\<lparr>mPosition := \<lparr>getX = 0, getY = 5080000\<rparr>,
            mGraphicsItem :=
              Some \<lparr>SGI_pos = \<lparr>getX = 0, getY = 5080000\<rparr>, SGI_rotation = - 90000000\<rparr>\<rparr>"

text \<open>The same instance with the null identifier.\<close>

definition unnamed :: "uuid SI_Symbol" where
  "unnamed = placed\<lparr>mUuid := Uuid []\<rparr>"

section \<open>Lemmas about the hash, the operations and the constructors\<close>

lemma keys_insert_hash: "\<not> contains h k \<Longrightarrow> keys (insert_hash k v h) = keys h @ [k]"
  by (induction h) (auto simp: keys_def contains_def)

lemma keys_foreach_pin: "keys (snd (foreach_pin f h)) = keys h"
  by (induction f h rule: foreach_pin.induct)
     (auto simp: keys_def split: prod.splits option.splits)

lemma count_keys: "count h = length (keys h)"
  by (simp add: count_def keys_def)

lemma find_by_key:
  assumes "find (\<lambda>x. f x = u) xs = Some y"
  shows "f y = u" and "find (\<lambda>x. f x = f y) xs = Some y"
proof -
  show u: "f y = u"
    using assms by (auto simp: find_Some_iff)
  show "find (\<lambda>x. f x = f y) xs = Some y"
    using assms u by simp
qed

lemma mPins_foreach:
  "foreach_pin f (mPins s) = (r, pins) \<Longrightarrow> keys pins = keys (mPins s)"
  using keys_foreach_pin [of f "mPins s"] by simp

text \<open>No operation writes a pointer, the identifier, the sheet or a key of the pins.\<close>

lemma after_keeps:
  "mSchematic (after ext s op) = mSchematic s"
  "mComponentInstance (after ext s op) = mComponentInstance s"
  "mSymbVarItem (after ext s op) = mSymbVarItem s"
  "mSymbol (after ext s op) = mSymbol s"
  "mUuid (after ext s op) = mUuid s"
  "keys (mPins (after ext s op)) = keys (mPins s)"
  "mGraphicsItem s \<noteq> None \<Longrightarrow> mGraphicsItem (after ext s op) \<noteq> None"
  by (cases op;
      auto simp: setPosition_def setRotation_def addToSchematic_def removeFromSchematic_def
        Let_def dest: mPins_foreach split: option.splits prod.splits)+

lemma constructedD:
  assumes "constructed s"
  obtains ci item symbol where
    "mComponentInstance s = Some ci" "mSymbVarItem s = Some item" "mSymbol s = Some symbol"
    "getItemByUuid (Cmp_getSymbolVariant ci) (Item_getUuid item) = Some item"
    "getSymbol (Project_getLibrary (Schematic_getProject (mSchematic s)))
       (Item_getSymbolUuid item) = Some symbol"
    "keys (mPins s) = map SymbolPin_getUuid (Symbol_getPins symbol)"
    "distinct (keys (mPins s))"
    "\<forall>p \<in> set (Symbol_getPins symbol).
       contains (Item_getPinSignalMap item) (SymbolPin_getUuid p)"
    "count (mPins s) = count (Item_getPinSignalMap item)"
    "\<not> isNull (mUuid s)" "mGraphicsItem s \<noteq> None"
  using assms unfolding constructed_def
  by (auto simp: list_all_iff split: option.splits)

lemma constructedI:
  assumes "mComponentInstance s = Some ci" "mSymbVarItem s = Some item" "mSymbol s = Some symbol"
    "getItemByUuid (Cmp_getSymbolVariant ci) (Item_getUuid item) = Some item"
    "getSymbol (Project_getLibrary (Schematic_getProject (mSchematic s)))
       (Item_getSymbolUuid item) = Some symbol"
    "keys (mPins s) = map SymbolPin_getUuid (Symbol_getPins symbol)"
    "distinct (keys (mPins s))"
    "\<forall>p \<in> set (Symbol_getPins symbol).
       contains (Item_getPinSignalMap item) (SymbolPin_getUuid p)"
    "count (mPins s) = count (Item_getPinSignalMap item)"
    "\<not> isNull (mUuid s)" "mGraphicsItem s \<noteq> None"
  shows "constructed s"
  using assms unfolding constructed_def
  by (simp add: list_all_iff)

lemma after_constructed:
  assumes "constructed s"
  shows "constructed (after ext s op)"
proof -
  from assms obtain ci item symbol where c:
    "mComponentInstance s = Some ci" "mSymbVarItem s = Some item" "mSymbol s = Some symbol"
    "getItemByUuid (Cmp_getSymbolVariant ci) (Item_getUuid item) = Some item"
    "getSymbol (Project_getLibrary (Schematic_getProject (mSchematic s)))
       (Item_getSymbolUuid item) = Some symbol"
    "keys (mPins s) = map SymbolPin_getUuid (Symbol_getPins symbol)"
    "distinct (keys (mPins s))"
    "\<forall>p \<in> set (Symbol_getPins symbol).
       contains (Item_getPinSignalMap item) (SymbolPin_getUuid p)"
    "count (mPins s) = count (Item_getPinSignalMap item)"
    "\<not> isNull (mUuid s)" "mGraphicsItem s \<noteq> None"
    by (rule constructedD)
  show ?thesis
  proof (rule constructedI [where ci = ci and item = item and symbol = symbol])
    show "mGraphicsItem (after ext s op) \<noteq> None"
      using c(11) by (rule after_keeps)
    show "count (mPins (after ext s op)) = count (Item_getPinSignalMap item)"
      using c(9) by (simp add: count_keys after_keeps)
    show "distinct (keys (mPins (after ext s op)))"
      using c(7) by (simp add: after_keeps)
  qed (simp_all add: after_keeps c)
qed

lemma foldl_after_constructed:
  "constructed s \<Longrightarrow> constructed (foldl (after ext) s ops)"
  by (induction ops arbitrary: s) (simp_all add: after_constructed)

lemma constructed_pins_match:
  assumes "constructed s"
  shows "pins_match s"
proof -
  from assms obtain ci item symbol where c:
    "mComponentInstance s = Some ci" "mSymbVarItem s = Some item" "mSymbol s = Some symbol"
    "getItemByUuid (Cmp_getSymbolVariant ci) (Item_getUuid item) = Some item"
    "getSymbol (Project_getLibrary (Schematic_getProject (mSchematic s)))
       (Item_getSymbolUuid item) = Some symbol"
    "keys (mPins s) = map SymbolPin_getUuid (Symbol_getPins symbol)"
    "distinct (keys (mPins s))"
    "\<forall>p \<in> set (Symbol_getPins symbol).
       contains (Item_getPinSignalMap item) (SymbolPin_getUuid p)"
    "count (mPins s) = count (Item_getPinSignalMap item)"
    "\<not> isNull (mUuid s)" "mGraphicsItem s \<noteq> None"
    by (rule constructedD)
  let ?P = "set (keys (mPins s))" and ?M = "set (keys (Item_getPinSignalMap item))"
  have sub: "?P \<subseteq> ?M"
    using c(6,8) by (auto simp: contains_def)
  have "card ?M \<le> length (keys (Item_getPinSignalMap item))"
    by (rule card_length)
  also have "\<dots> = length (keys (mPins s))"
    using c(9) by (simp add: count_keys)
  also have "\<dots> = card ?P"
    using c(7) by (simp add: distinct_card)
  finally have "card ?M \<le> card ?P" .
  with sub have "?P = ?M"
    by (simp add: card_seteq)
  with c(2,7,9) show ?thesis
    by (simp add: pins_match_def)
qed

lemma init_pins_Inr:
  "init_pins ext pins s = Inr s' \<Longrightarrow>
     s' = s\<lparr>mPins := mPins s'\<rparr> \<and>
     keys (mPins s') = keys (mPins s) @ map SymbolPin_getUuid pins \<and>
     distinct (map SymbolPin_getUuid pins) \<and>
     set (keys (mPins s)) \<inter> SymbolPin_getUuid ` set pins = {} \<and>
     (pins \<noteq> [] \<longrightarrow> (\<exists>item. mSymbVarItem s = Some item \<and>
        (\<forall>p \<in> set pins. contains (Item_getPinSignalMap item) (SymbolPin_getUuid p))))"
proof (induction pins arbitrary: s)
  case Nil
  then show ?case by simp
next
  case (Cons libPin rest)
  let ?u = "SymbolPin_getUuid libPin"
  from Cons.prems obtain pin item where
    pin: "SI_SymbolPin_new ext s ?u = Inr pin"
    and fresh: "\<not> contains (mPins s) ?u"
    and item: "mSymbVarItem s = Some item"
    and inmap: "contains (Item_getPinSignalMap item) ?u"
    and rest: "init_pins ext rest (s\<lparr>mPins := insert_hash ?u pin (mPins s)\<rparr>) = Inr s'"
    by (auto split: sum.splits if_splits option.splits)
  note IH = Cons.IH [OF rest]
  have k: "keys (insert_hash ?u pin (mPins s)) = keys (mPins s) @ [?u]"
    using fresh by (rule keys_insert_hash)
  have 1: "s' = s\<lparr>mPins := mPins s'\<rparr>"
    using IH by simp
  have 2: "keys (mPins s') = keys (mPins s) @ map SymbolPin_getUuid (libPin # rest)"
    using IH k by simp
  have 3: "distinct (map SymbolPin_getUuid (libPin # rest))"
    using IH k by auto
  have 4: "set (keys (mPins s)) \<inter> SymbolPin_getUuid ` set (libPin # rest) = {}"
    using IH k fresh by (auto simp: contains_def)
  have 5: "\<forall>p \<in> set (libPin # rest). contains (Item_getPinSignalMap item) (SymbolPin_getUuid p)"
    using IH item inmap by (cases rest) auto
  show ?case using 1 2 3 4 5 item by blast
qed

text \<open>
  A loop that has returned an instance had constructible pins in the state in which it
  was entered.
\<close>

lemma init_pins_constructible:
  "init_pins ext pins s = Inr s' \<Longrightarrow> pins_constructible ext pins s"
  by (induction pins arbitrary: s) (auto split: sum.splits if_splits option.splits)

lemma init_pins_succeeds:
  assumes "pins_constructible ext pins s"
    and "distinct (keys (mPins s) @ map SymbolPin_getUuid pins)"
    and "mSymbVarItem s = Some item"
    and "\<forall>p \<in> set pins. contains (Item_getPinSignalMap item) (SymbolPin_getUuid p)"
  shows "\<exists>s'. init_pins ext pins s = Inr s'"
  using assms
proof (induction pins arbitrary: s)
  case Nil
  then show ?case by simp
next
  case (Cons libPin rest)
  let ?u = "SymbolPin_getUuid libPin"
  from Cons.prems(1) obtain pin where pin: "SI_SymbolPin_new ext s ?u = Inr pin"
    and rest: "pins_constructible ext rest (s\<lparr>mPins := insert_hash ?u pin (mPins s)\<rparr>)"
    by (auto split: sum.splits)
  have fresh: "\<not> contains (mPins s) ?u"
    using Cons.prems(2) by (auto simp: contains_def)
  let ?s = "s\<lparr>mPins := insert_hash ?u pin (mPins s)\<rparr>"
  have "\<exists>s'. init_pins ext rest ?s = Inr s'"
    using rest
  proof (rule Cons.IH)
    show "distinct (keys (mPins ?s) @ map SymbolPin_getUuid rest)"
      using Cons.prems(2) fresh by (simp add: keys_insert_hash)
    show "mSymbVarItem ?s = Some item"
      using Cons.prems(3) by simp
    show "\<forall>p \<in> set rest. contains (Item_getPinSignalMap item) (SymbolPin_getUuid p)"
      using Cons.prems(4) by simp
  qed
  then show ?case
    using pin fresh Cons.prems(3,4) by simp
qed

lemma init_Inr:
  assumes "init ext s u = Inr s'"
  obtains ci item symbol where
    "mComponentInstance s = Some ci"
    "getItemByUuid (Cmp_getSymbolVariant ci) u = Some item"
    "getSymbol (Project_getLibrary (Schematic_getProject (mSchematic s)))
       (Item_getSymbolUuid item) = Some symbol"
    "mSchematic s' = mSchematic s" "mComponentInstance s' = Some ci"
    "mSymbVarItem s' = Some item" "mSymbol s' = Some symbol"
    "mGraphicsItem s' = Some \<lparr>SGI_pos = mPosition s, SGI_rotation = - mRotation s\<rparr>"
    "mUuid s' = mUuid s" "mPosition s' = mPosition s" "mRotation s' = mRotation s"
    "keys (mPins s') = keys (mPins s) @ map SymbolPin_getUuid (Symbol_getPins symbol)"
    "distinct (map SymbolPin_getUuid (Symbol_getPins symbol))"
    "set (keys (mPins s)) \<inter> SymbolPin_getUuid ` set (Symbol_getPins symbol) = {}"
    "\<forall>p \<in> set (Symbol_getPins symbol).
        contains (Item_getPinSignalMap item) (SymbolPin_getUuid p)"
    "count (mPins s') = count (Item_getPinSignalMap item)"
    "\<not> isNull (mUuid s)"
proof -
  from assms obtain ci item symbol where
    ci: "mComponentInstance s = Some ci"
    and item: "getItemByUuid (Cmp_getSymbolVariant ci) u = Some item"
    and symbol: "getSymbol (Project_getLibrary (Schematic_getProject (mSchematic s)))
       (Item_getSymbolUuid item) = Some symbol"
    and pins: "init_pins ext (Symbol_getPins symbol)
       (s\<lparr>mSymbVarItem := Some item, mSymbol := Some symbol,
          mGraphicsItem := Some \<lparr>SGI_pos = mPosition s, SGI_rotation = - mRotation s\<rparr>\<rparr>) = Inr s'"
    and cnt: "count (mPins s') = count (Item_getPinSignalMap item)"
    and valid: "checkAttributesValidity s'"
    unfolding init_def by (auto split: option.splits sum.splits if_splits)
  note P = init_pins_Inr [OF pins]
  have eq: "s' = s\<lparr>mSymbVarItem := Some item, mSymbol := Some symbol,
            mGraphicsItem := Some \<lparr>SGI_pos = mPosition s, SGI_rotation = - mRotation s\<rparr>,
            mPins := mPins s'\<rparr>"
    using P by simp
  have k: "keys (mPins s') = keys (mPins s) @ map SymbolPin_getUuid (Symbol_getPins symbol)"
    using P by simp
  have d: "distinct (map SymbolPin_getUuid (Symbol_getPins symbol))"
    using P by blast
  have i: "set (keys (mPins s)) \<inter> SymbolPin_getUuid ` set (Symbol_getPins symbol) = {}"
    using P by simp
  have m: "\<forall>p \<in> set (Symbol_getPins symbol).
        contains (Item_getPinSignalMap item) (SymbolPin_getUuid p)"
    using P by (cases "Symbol_getPins symbol") auto
  have f: "mSchematic s' = mSchematic s" "mComponentInstance s' = Some ci"
    "mSymbVarItem s' = Some item" "mSymbol s' = Some symbol"
    "mGraphicsItem s' = Some \<lparr>SGI_pos = mPosition s, SGI_rotation = - mRotation s\<rparr>"
    "mUuid s' = mUuid s" "mPosition s' = mPosition s" "mRotation s' = mRotation s"
    by (subst eq, simp add: ci)+
  from valid f(6) have n: "\<not> isNull (mUuid s)"
    by (simp add: checkAttributesValidity_def split: if_splits)
  show thesis
    using that [OF ci item symbol f k d i m cnt n] .
qed

lemma init_constructed:
  assumes "init ext s u = Inr s'" and "mPins s = []"
  shows "constructed s'"
proof -
  from assms(1) obtain ci item symbol where c:
    "mComponentInstance s = Some ci"
    "getItemByUuid (Cmp_getSymbolVariant ci) u = Some item"
    "getSymbol (Project_getLibrary (Schematic_getProject (mSchematic s)))
       (Item_getSymbolUuid item) = Some symbol"
    "mSchematic s' = mSchematic s" "mComponentInstance s' = Some ci"
    "mSymbVarItem s' = Some item" "mSymbol s' = Some symbol"
    "mGraphicsItem s' = Some \<lparr>SGI_pos = mPosition s, SGI_rotation = - mRotation s\<rparr>"
    "mUuid s' = mUuid s" "mPosition s' = mPosition s" "mRotation s' = mRotation s"
    "keys (mPins s') = keys (mPins s) @ map SymbolPin_getUuid (Symbol_getPins symbol)"
    "distinct (map SymbolPin_getUuid (Symbol_getPins symbol))"
    "set (keys (mPins s)) \<inter> SymbolPin_getUuid ` set (Symbol_getPins symbol) = {}"
    "\<forall>p \<in> set (Symbol_getPins symbol).
        contains (Item_getPinSignalMap item) (SymbolPin_getUuid p)"
    "count (mPins s') = count (Item_getPinSignalMap item)"
    "\<not> isNull (mUuid s)"
    by (rule init_Inr)
  have k: "keys (mPins s') = map SymbolPin_getUuid (Symbol_getPins symbol)"
    using c(12) assms(2) by (simp add: keys_def)
  show ?thesis
  proof (rule constructedI [where ci = ci and item = item and symbol = symbol])
    show "getItemByUuid (Cmp_getSymbolVariant ci) (Item_getUuid item) = Some item"
      using c(2) unfolding getItemByUuid_def by (rule find_by_key)
    show "getSymbol (Project_getLibrary (Schematic_getProject (mSchematic s')))
       (Item_getSymbolUuid item) = Some symbol"
      using c(3,4) by simp
    show "distinct (keys (mPins s'))"
      using c(13) k by simp
    show "\<not> isNull (mUuid s')"
      using c(9,17) by simp
    show "mGraphicsItem s' \<noteq> None"
      using c(8) by simp
  qed (fact c k)+
qed

lemma SI_Symbol_xml_Inr:
  assumes "SI_Symbol_xml ext schematic domElement = Inr s"
  obtains uuid gcUuid ci position x y rotation u where
    "getAttribute (Uuid_fromText ext) domElement ''uuid'' = Inr uuid"
    "getAttribute (Uuid_fromText ext) domElement ''component_instance'' = Inr gcUuid"
    "getComponentInstanceByUuid (Project_getCircuit (Schematic_getProject schematic)) gcUuid
       = Some ci"
    "getFirstChild domElement ''position'' = Inr position"
    "getAttribute (Length_fromText ext) position ''x'' = Inr x"
    "getAttribute (Length_fromText ext) position ''y'' = Inr y"
    "getAttribute (Angle_fromText ext) position ''rotation'' = Inr rotation"
    "getAttribute (Uuid_fromText ext) domElement ''symbol_item'' = Inr u"
    "init ext
       \<lparr>mSchematic = schematic, mComponentInstance = Some ci, mSymbVarItem = None,
        mSymbol = None, mGraphicsItem = None, mUuid = uuid,
        mPosition = \<lparr>getX = x, getY = y\<rparr>, mRotation = rotation, mPins = []\<rparr> u = Inr s"
  using assms unfolding SI_Symbol_xml_def
  by (auto split: sum.splits option.splits)

lemma SI_Symbol_xml_constructed:
  assumes "SI_Symbol_xml ext schematic domElement = Inr s"
  shows "constructed s"
  using assms by (elim SI_Symbol_xml_Inr init_constructed) simp

lemma SI_Symbol_new_constructed:
  assumes "SI_Symbol_new ext schematic cmpInstance symbolItem position rotation random = Inr s"
  shows "constructed s"
  using assms unfolding SI_Symbol_new_def by (rule init_constructed) simp

lemma init_unresolved:
  assumes "mComponentInstance s = Some ci" and "unresolved (mSchematic s) ci u"
  shows "raises (init ext s u)"
  using assms
  by (auto simp: init_def unresolved_def raises_def split: option.splits)

lemma raises_Inl: "raises (Inl e) = (e \<noteq> NullDereference)"
  by (simp add: raises_def)

lemma getAttribute_Inl: "getAttribute f e n = Inl x \<Longrightarrow> x = FileParseError"
  by (auto simp: getAttribute_def split: option.splits)

lemma getFirstChild_Inl: "getFirstChild e n = Inl x \<Longrightarrow> x = FileParseError"
  by (auto simp: getFirstChild_def split: option.splits)

lemma init_disagree:
  assumes ci: "mComponentInstance s = Some ci"
    and item: "getItemByUuid (Cmp_getSymbolVariant ci) u = Some item"
    and symbol: "getSymbol (Project_getLibrary (Schematic_getProject (mSchematic s)))
       (Item_getSymbolUuid item) = Some symbol"
    and empty: "mPins s = []"
    and dis: "pins_disagree symbol item"
  shows "isl (init ext s u)"
proof (cases "init ext s u")
  case (Inl e)
  then show ?thesis by simp
next
  case (Inr s')
  then obtain ci' item' symbol' where c:
    "mComponentInstance s = Some ci'"
    "getItemByUuid (Cmp_getSymbolVariant ci') u = Some item'"
    "getSymbol (Project_getLibrary (Schematic_getProject (mSchematic s)))
       (Item_getSymbolUuid item') = Some symbol'"
    "keys (mPins s') = keys (mPins s) @ map SymbolPin_getUuid (Symbol_getPins symbol')"
    "distinct (map SymbolPin_getUuid (Symbol_getPins symbol'))"
    "\<forall>p \<in> set (Symbol_getPins symbol').
        contains (Item_getPinSignalMap item') (SymbolPin_getUuid p)"
    "count (mPins s') = count (Item_getPinSignalMap item')"
    by (rule init_Inr)
  from c(1,2,3) ci item symbol have same: "ci' = ci" "item' = item" "symbol' = symbol"
    by simp_all
  have "length (Symbol_getPins symbol) = length (keys (mPins s'))"
    using c(4) empty same by (simp add: keys_def)
  also have "\<dots> = count (Item_getPinSignalMap item)"
    using c(7) same by (simp add: count_keys)
  finally have "length (Symbol_getPins symbol) = count (Item_getPinSignalMap item)" .
  with c(5,6) same dis have False
    by (auto simp: pins_disagree_def list_ex_iff)
  then show ?thesis ..
qed

lemma init_pins_no_crash:
  assumes "mSymbVarItem s = Some item"
    and "\<forall>h. \<forall>p \<in> set pins.
           SI_SymbolPin_new ext (s\<lparr>mPins := h\<rparr>) (SymbolPin_getUuid p) \<noteq> Inl NullDereference"
  shows "init_pins ext pins s \<noteq> Inl NullDereference"
  using assms
proof (induction pins arbitrary: s)
  case Nil
  then show ?case by simp
next
  case (Cons libPin rest)
  let ?u = "SymbolPin_getUuid libPin"
  have here: "SI_SymbolPin_new ext s ?u \<noteq> Inl NullDereference"
    using Cons.prems(2) [THEN spec, of "mPins s"] by simp
  have next_ok: "init_pins ext rest (s\<lparr>mPins := h\<rparr>) \<noteq> Inl NullDereference" for h
  proof (rule Cons.IH)
    show "mSymbVarItem (s\<lparr>mPins := h\<rparr>) = Some item"
      using Cons.prems(1) by simp
    show "\<forall>h'. \<forall>p \<in> set rest.
        SI_SymbolPin_new ext (s\<lparr>mPins := h\<rparr>\<lparr>mPins := h'\<rparr>) (SymbolPin_getUuid p)
          \<noteq> Inl NullDereference"
      using Cons.prems(2) by simp
  qed
  show ?case
    using here next_ok Cons.prems(1) by (auto split: sum.splits)
qed

lemma init_no_crash:
  assumes ci: "mComponentInstance s = Some ci"
    and item: "getItemByUuid (Cmp_getSymbolVariant ci) u = Some item"
    and symbol: "getSymbol (Project_getLibrary (Schematic_getProject (mSchematic s)))
       (Item_getSymbolUuid item) = Some symbol"
    and pins: "\<forall>t. mComponentInstance t = Some ci \<and> mSymbVarItem t = Some item \<and>
         mSymbol t = Some symbol \<longrightarrow>
         (\<forall>p \<in> set (Symbol_getPins symbol).
            SI_SymbolPin_new ext t (SymbolPin_getUuid p) \<noteq> Inl NullDereference)"
  shows "init ext s u \<noteq> Inl NullDereference"
proof -
  let ?s = "s\<lparr>mSymbVarItem := Some item, mSymbol := Some symbol,
          mGraphicsItem := Some \<lparr>SGI_pos = mPosition s, SGI_rotation = - mRotation s\<rparr>\<rparr>"
  have "init_pins ext (Symbol_getPins symbol) ?s \<noteq> Inl NullDereference"
  proof (rule init_pins_no_crash)
    show "mSymbVarItem ?s = Some item"
      by simp
    show "\<forall>h. \<forall>p \<in> set (Symbol_getPins symbol).
        SI_SymbolPin_new ext (?s\<lparr>mPins := h\<rparr>) (SymbolPin_getUuid p) \<noteq> Inl NullDereference"
      using pins ci by simp
  qed
  then show ?thesis
    by (auto simp: init_def ci item symbol split: sum.splits)
qed

lemma raises_iff: "raises r \<longleftrightarrow> isl r \<and> r \<noteq> Inl NullDereference"
  by (cases r) (auto simp: raises_def)

lemma serialize_shape:
  assumes "checkAttributesValidity s"
    and "mComponentInstance s = Some ci" and "mSymbVarItem s = Some item"
  shows "serializeToXmlDomElement ext s =
     Inr (XmlDomElement ''symbol''
        [(''uuid'', Uuid_toText ext (mUuid s)),
         (''component_instance'', Uuid_toText ext (Cmp_getUuid ci)),
         (''symbol_item'', Uuid_toText ext (Item_getUuid item))]
        [XmlDomElement ''position''
           [(''x'', Length_toText ext (getX (mPosition s))),
            (''y'', Length_toText ext (getY (mPosition s))),
            (''rotation'', Angle_toText ext (mRotation s))] []])"
  using assms
  by (simp add: serializeToXmlDomElement_def setAttribute_def appendChild_def at_child_def)

lemma constructed_valid: "constructed s \<Longrightarrow> checkAttributesValidity s"
  by (erule constructedD) (simp add: checkAttributesValidity_def)

lemma init_succeeds:
  assumes ci: "mComponentInstance s = Some ci"
    and item: "getItemByUuid (Cmp_getSymbolVariant ci) u = Some item"
    and symbol: "getSymbol (Project_getLibrary (Schematic_getProject (mSchematic s)))
       (Item_getSymbolUuid item) = Some symbol"
    and empty: "mPins s = []"
    and dist: "distinct (map SymbolPin_getUuid (Symbol_getPins symbol))"
    and inmap: "\<forall>p \<in> set (Symbol_getPins symbol).
        contains (Item_getPinSignalMap item) (SymbolPin_getUuid p)"
    and cnt: "length (Symbol_getPins symbol) = count (Item_getPinSignalMap item)"
    and uuid: "\<not> isNull (mUuid s)"
    and new: "pins_constructible ext (Symbol_getPins symbol)
        (s\<lparr>mSymbVarItem := Some item, mSymbol := Some symbol,
           mGraphicsItem := Some \<lparr>SGI_pos = mPosition s, SGI_rotation = - mRotation s\<rparr>\<rparr>)"
  shows "\<exists>s'. init ext s u = Inr s'"
proof -
  let ?s = "s\<lparr>mSymbVarItem := Some item, mSymbol := Some symbol,
          mGraphicsItem := Some \<lparr>SGI_pos = mPosition s, SGI_rotation = - mRotation s\<rparr>\<rparr>"
  have "\<exists>s'. init_pins ext (Symbol_getPins symbol) ?s = Inr s'"
    using new
  proof (rule init_pins_succeeds)
    show "distinct (keys (mPins ?s) @ map SymbolPin_getUuid (Symbol_getPins symbol))"
      using dist empty by (simp add: keys_def)
    show "mSymbVarItem ?s = Some item"
      by simp
    show "\<forall>p \<in> set (Symbol_getPins symbol).
        contains (Item_getPinSignalMap item) (SymbolPin_getUuid p)"
      by (fact inmap)
  qed
  then obtain s' where s': "init_pins ext (Symbol_getPins symbol) ?s = Inr s'" ..
  note P = init_pins_Inr [OF s']
  have eq: "s' = ?s\<lparr>mPins := mPins s'\<rparr>"
    using P by blast
  have "keys (mPins s') = map SymbolPin_getUuid (Symbol_getPins symbol)"
    using P empty by (simp add: keys_def)
  then have c: "count (mPins s') = count (Item_getPinSignalMap item)"
    using cnt by (simp add: count_keys)
  have "checkAttributesValidity s'"
    by (subst eq) (simp add: checkAttributesValidity_def ci uuid)
  with c s' show ?thesis
    by (simp add: init_def ci item symbol)
qed

lemma init_result:
  assumes "init ext s u = Inr s'"
    and "mComponentInstance s = Some ci"
    and "getItemByUuid (Cmp_getSymbolVariant ci) u = Some item"
    and "getSymbol (Project_getLibrary (Schematic_getProject (mSchematic s)))
       (Item_getSymbolUuid item) = Some symbol"
  shows "mUuid s' = mUuid s \<and> mPosition s' = mPosition s \<and> mRotation s' = mRotation s \<and>
      mComponentInstance s' = Some ci \<and> mSymbVarItem s' = Some item \<and>
      mSymbol s' = Some symbol"
  using assms by (elim init_Inr) simp

lemma plain_simps:
  "SI_SymbolPin_new plain = (\<lambda>s u. Inr u)"
  "SI_SymbolPin_updatePosition plain = (\<lambda>s pin. (None, pin))"
  "SI_SymbolPin_addToSchematic plain = (\<lambda>s pin scene. (None, pin))"
  "SI_SymbolPin_removeFromSchematic plain = (\<lambda>s pin scene. (None, pin))"
  "Cmp_registerSymbol plain = (\<lambda>ci s. None)"
  "Cmp_unregisterSymbol plain = (\<lambda>ci s. None)"
  "Cmp_getAttributeValue plain =
     (\<lambda>ci attrNS attrKey passToParents val.
        if (attrNS = ''CMP'' \<or> attrNS = []) \<and> attrKey = ''VALUE''
        then (True, ''10k'') else (False, val))"
  "Schematic_getAttributeValue plain =
     (\<lambda>schematic attrNS attrKey passToParents val.
        if (attrNS = ''SCH'' \<or> attrNS = []) \<and> attrKey = ''PAGE''
        then (True, ''1'') else (False, val))"
  "Uuid_fromText plain = (\<lambda>t. if t = [] then None else Some (Uuid t))"
  "Uuid_toText plain = toStr"
  "Length_fromText plain = int_fromText"
  "Length_toText plain = int_toText"
  "Angle_fromText plain = int_fromText"
  "Angle_toText plain = int_toText"
  by (simp_all add: plain_def)

lemma r1_simps:
  "Cmp_getUuid r1 = Uuid ''cmp-r1''" "Cmp_getName r1 = ''R1''"
  "Cmp_getSymbolVariant r1 = \<lparr>SymbVar_getItems = [item_ok, item_short, item_lost]\<rparr>"
  by (simp_all add: r1_def)

lemma item_simps:
  "Item_getUuid item_ok = Uuid ''item-ok''"
  "Item_getSymbolUuid item_ok = Uuid ''sym-resistor''"
  "Item_getSuffix item_ok = ''-A''"
  "Item_getPinSignalMap item_ok =
     [(Uuid ''pin-2'', Uuid ''sig-b''), (Uuid ''pin-1'', Uuid ''sig-a'')]"
  "Item_getUuid item_short = Uuid ''item-short''"
  "Item_getSymbolUuid item_short = Uuid ''sym-resistor''"
  "Item_getPinSignalMap item_short = [(Uuid ''pin-1'', Uuid ''sig-a'')]"
  "Item_getUuid item_lost = Uuid ''item-lost''"
  "Item_getSymbolUuid item_lost = Uuid ''sym-missing''"
  "Item_getPinSignalMap item_lost = []"
  by (simp_all add: item_ok_def item_short_def item_lost_def)

lemma resistor_simps:
  "Symbol_getUuid resistor = Uuid ''sym-resistor''"
  "Symbol_getPins resistor =
     [\<lparr>SymbolPin_getUuid = Uuid ''pin-1''\<rparr>, \<lparr>SymbolPin_getUuid = Uuid ''pin-2''\<rparr>]"
  by (simp_all add: resistor_def)

lemma sheet_simps:
  "Project_getCircuit (Schematic_getProject sheet) = \<lparr>Circuit_getComponentInstances = [r1]\<rparr>"
  "Project_getLibrary (Schematic_getProject sheet) = \<lparr>Library_getSymbols = [resistor]\<rparr>"
  by (simp_all add: sheet_def)

lemma placed_simps:
  "mSchematic placed = sheet" "mComponentInstance placed = Some r1"
  "mSymbVarItem placed = Some item_ok" "mSymbol placed = Some resistor"
  "mUuid placed = Uuid ''si-1''"
  "mPosition placed = \<lparr>getX = 2540000, getY = - 1270000\<rparr>" "mRotation placed = 90000000"
  "mPins placed = [(Uuid ''pin-1'', Uuid ''pin-1''), (Uuid ''pin-2'', Uuid ''pin-2'')]"
  "mGraphicsItem placed =
     Some \<lparr>SGI_pos = \<lparr>getX = 2540000, getY = - 1270000\<rparr>, SGI_rotation = - 90000000\<rparr>"
  by (simp_all add: placed_def)

lemma int_text:
  "int_fromText ''2540000'' = Some 2540000" "int_fromText ''-1270000'' = Some (- 1270000)"
  "int_fromText ''90000000'' = Some 90000000" "int_fromText ''0'' = Some 0"
  "int_fromText ''5080000'' = Some 5080000"
  "int_toText 2540000 = ''2540000''" "int_toText (- 1270000) = ''-1270000''"
  "int_toText 90000000 = ''90000000''" "int_toText 0 = ''0''"
  "int_toText 5080000 = ''5080000''"
  by (simp_all add: int_fromText_def int_toText_def number.simps)

lemmas project_simps =
  plain_simps r1_simps item_simps resistor_simps sheet_simps int_text

lemmas lookup_defs =
  getComponentInstanceByUuid_def getItemByUuid_def getSymbol_def getAttribute_def
  getFirstChild_def contains_def keys_def count_def checkAttributesValidity_def isNull_def

lemma load_saved: "SI_Symbol_xml plain sheet saved = Inr placed"
  by (simp add: SI_Symbol_xml_def saved_def init_def lookup_defs project_simps placed_def)

lemma place_new:
  "SI_Symbol_new plain sheet r1 (Uuid ''item-ok'') \<lparr>getX = 2540000, getY = - 1270000\<rparr>
     90000000 (Uuid ''si-1'') = Inr placed"
  by (simp add: SI_Symbol_new_def init_def lookup_defs project_simps placed_def)

lemma null_identifier_is_rejected:
  "SI_Symbol_new plain sheet r1 (Uuid ''item-ok'') \<lparr>getX = 2540000, getY = - 1270000\<rparr>
     90000000 (Uuid []) = (Inl LogicError :: exception + uuid SI_Symbol)"
  by (simp add: SI_Symbol_new_def init_def lookup_defs project_simps)

lemma move_placed:
  "foldl (after plain) placed
     [SetPosition \<lparr>getX = 0, getY = 5080000\<rparr>, AddToSchematic (), SerializeToXmlDomElement]
   = moved"
  by (simp add: setPosition_def addToSchematic_def placed_simps plain_simps moved_def)

lemma lost_item: "unresolved sheet r1 (Uuid ''item-lost'')"
  by (simp add: unresolved_def lookup_defs project_simps)

lemma no_item: "unresolved sheet r1 (Uuid ''item-none'')"
  by (simp add: unresolved_def lookup_defs project_simps)

lemma stray_component: "xml_unresolved plain sheet saved_stray"
  by (simp add: xml_unresolved_def saved_stray_def lookup_defs project_simps)

lemma short_item:
  "getItemByUuid (Cmp_getSymbolVariant r1) (Uuid ''item-short'') = Some item_short"
  "getSymbol (Project_getLibrary (Schematic_getProject sheet)) (Item_getSymbolUuid item_short)
     = Some resistor"
  "pins_disagree resistor item_short"
  "xml_refers plain sheet saved_short r1 (Uuid ''item-short'')"
  by (simp_all add: pins_disagree_def xml_refers_def saved_short_def lookup_defs project_simps)

lemma moved_simps:
  "mSchematic moved = sheet" "mComponentInstance moved = Some r1"
  "mSymbVarItem moved = Some item_ok" "mSymbol moved = Some resistor"
  "mUuid moved = Uuid ''si-1''"
  "mPosition moved = \<lparr>getX = 0, getY = 5080000\<rparr>" "mRotation moved = 90000000"
  by (simp_all add: moved_def placed_def)

section \<open>The claims\<close>

text \<open>
  Claim C1. After either constructor has returned an instance, and after any sequence of
  \<open>setPosition\<close>, \<open>setRotation\<close>, \<open>addToSchematic\<close>, \<open>removeFromSchematic\<close> and
  \<open>serializeToXmlDomElement\<close> calls on it, the pin identifiers of the pin map are exactly
  the keys of the pin-signal map of the symbol-variant item: no identifier occurs twice, the
  two sets are equal and the two counts are equal.
\<close>

theorem pins_match_pin_signal_map:
  assumes "SI_Symbol_xml ext schematic domElement = Inr s \<or>
           SI_Symbol_new ext schematic cmpInstance symbolItem position rotation random = Inr s"
  shows "pins_match (foldl (after ext) s operations)"
proof -
  from assms have "constructed s"
    by (auto intro: SI_Symbol_xml_constructed SI_Symbol_new_constructed)
  then have "constructed (foldl (after ext) s operations)"
    by (rule foldl_after_constructed)
  then show ?thesis
    by (rule constructed_pins_match)
qed

text \<open>
  The instance loaded from \<open>saved\<close>, then moved, added to a schematic and serialized.
\<close>

theorem pins_match_pin_signal_map_witness:
  "SI_Symbol_xml plain sheet saved = Inr placed \<and>
   pins_match (foldl (after plain) placed
      [SetPosition \<lparr>getX = 0, getY = 5080000\<rparr>, AddToSchematic (), SerializeToXmlDomElement])"
proof -
  have h: "SI_Symbol_xml plain sheet saved = Inr placed"
    by (rule load_saved)
  show ?thesis
    by (rule conjI [OF h pins_match_pin_signal_map [OF disjI1 [OF h]]])
qed

text \<open>
  Claim C2, as amended. A constructor raises an exception and returns no instance when the
  symbol-variant item or the library symbol cannot be resolved (both constructors) or when
  the component instance named by the saved element is not in the circuit (the constructor
  that loads saved data; the placement constructor is given the component instance itself
  and does not look it up in the circuit).
\<close>

theorem unresolved_reference_raises:
  "(unresolved schematic cmpInstance symbolItem \<longrightarrow>
      raises (SI_Symbol_new ext schematic cmpInstance symbolItem position rotation random)) \<and>
   (xml_unresolved ext schematic domElement \<longrightarrow>
      raises (SI_Symbol_xml ext schematic domElement))"
proof (intro conjI impI)
  assume "unresolved schematic cmpInstance symbolItem"
  then show "raises (SI_Symbol_new ext schematic cmpInstance symbolItem position rotation random)"
    unfolding SI_Symbol_new_def by (intro init_unresolved) simp_all
next
  assume u: "xml_unresolved ext schematic domElement"
  then obtain gcUuid where
    gc: "getAttribute (Uuid_fromText ext) domElement ''component_instance'' = Inr gcUuid"
    by (auto simp: xml_unresolved_def split: sum.splits)
  show "raises (SI_Symbol_xml ext schematic domElement)"
  proof (cases "getComponentInstanceByUuid
                  (Project_getCircuit (Schematic_getProject schematic)) gcUuid")
    case None
    then show ?thesis
      using gc
      by (auto simp: SI_Symbol_xml_def raises_Inl dest!: getAttribute_Inl split: sum.splits)
  next
    case (Some ci)
    with u gc obtain v where
      v: "getAttribute (Uuid_fromText ext) domElement ''symbol_item'' = Inr v"
      and un: "unresolved schematic ci v"
      by (auto simp: xml_unresolved_def split: sum.splits)
    have "raises (init ext
            \<lparr>mSchematic = schematic, mComponentInstance = Some ci, mSymbVarItem = None,
             mSymbol = None, mGraphicsItem = None, mUuid = uuid,
             mPosition = \<lparr>getX = x, getY = y\<rparr>, mRotation = rotation, mPins = []\<rparr> v)"
      for uuid x y rotation
      using un by (intro init_unresolved) simp_all
    then show ?thesis
      using gc Some v
      by (auto simp: SI_Symbol_xml_def raises_Inl dest!: getAttribute_Inl getFirstChild_Inl
            split: sum.splits)
  qed
qed

text \<open>
  An item identifier that the component instance does not have, an item whose symbol is
  not in the library, and a saved element whose component instance is not in the circuit.
\<close>

theorem unresolved_reference_raises_witness:
  "unresolved sheet r1 (Uuid ''item-none'') \<and>
   raises (SI_Symbol_new plain sheet r1 (Uuid ''item-none'') \<lparr>getX = 0, getY = 0\<rparr> 0
             (Uuid ''si-4'')) \<and>
   unresolved sheet r1 (Uuid ''item-lost'') \<and>
   raises (SI_Symbol_new plain sheet r1 (Uuid ''item-lost'') \<lparr>getX = 0, getY = 0\<rparr> 0
             (Uuid ''si-4'')) \<and>
   xml_unresolved plain sheet saved_stray \<and>
   raises (SI_Symbol_xml plain sheet saved_stray)"
  using no_item lost_item stray_component
    unresolved_reference_raises [of sheet r1 "Uuid ''item-none''" plain
      "\<lparr>getX = 0, getY = 0\<rparr>" 0 "Uuid ''si-4''" saved_stray]
    unresolved_reference_raises [of sheet r1 "Uuid ''item-lost''" plain
      "\<lparr>getX = 0, getY = 0\<rparr>" 0 "Uuid ''si-4''" saved_stray]
  by blast

text \<open>
  Claim C2 as it is stated fails for the placement constructor: the component instance
  \<open>r1\<close> is not in the circuit of \<open>other_sheet\<close>, and the constructor returns an instance.
\<close>

theorem placement_without_circuit_counterexample:
  "getComponentInstanceByUuid (Project_getCircuit (Schematic_getProject other_sheet))
     (Cmp_getUuid r1) = None \<and>
   \<not> raises (SI_Symbol_new plain other_sheet r1 (Uuid ''item-ok'')
               \<lparr>getX = 2540000, getY = - 1270000\<rparr> 90000000 (Uuid ''si-1'')) \<and>
   SI_Symbol_new plain other_sheet r1 (Uuid ''item-ok'')
     \<lparr>getX = 2540000, getY = - 1270000\<rparr> 90000000 (Uuid ''si-1'')
     = Inr (placed\<lparr>mSchematic := other_sheet\<rparr>)"
proof -
  have n: "SI_Symbol_new plain other_sheet r1 (Uuid ''item-ok'')
     \<lparr>getX = 2540000, getY = - 1270000\<rparr> 90000000 (Uuid ''si-1'')
     = Inr (placed\<lparr>mSchematic := other_sheet\<rparr>)"
    by (simp add: SI_Symbol_new_def init_def lookup_defs plain_simps r1_simps item_simps
          resistor_simps other_sheet_def placed_def)
  have c: "getComponentInstanceByUuid (Project_getCircuit (Schematic_getProject other_sheet))
     (Cmp_getUuid r1) = None"
    by (simp add: getComponentInstanceByUuid_def other_sheet_def)
  from n c show ?thesis
    by (simp add: raises_def)
qed

text \<open>
  Claim C3. When the item and the library symbol are resolved but the pins of the symbol and
  the pin-signal map of the item disagree (a pin is not in the map, a pin identifier occurs
  twice, or the map has more entries than the symbol has pins), neither constructor returns
  an instance. What it ends with is an exception of the program, and not a call through a
  null pointer, whenever the \<open>SI_SymbolPin\<close> constructor, on a symbol whose three pointers
  are set, does not end with such a call itself.
\<close>

theorem pin_disagreement_raises:
  assumes "getItemByUuid (Cmp_getSymbolVariant ci) u = Some item"
    and "getSymbol (Project_getLibrary (Schematic_getProject schematic))
           (Item_getSymbolUuid item) = Some symbol"
    and "pins_disagree symbol item"
  shows "isl (SI_Symbol_new ext schematic ci u position rotation random) \<and>
         (xml_refers ext schematic domElement ci u \<longrightarrow>
            isl (SI_Symbol_xml ext schematic domElement)) \<and>
         ((\<forall>t. mComponentInstance t = Some ci \<and> mSymbVarItem t = Some item \<and>
               mSymbol t = Some symbol \<longrightarrow>
               (\<forall>p \<in> set (Symbol_getPins symbol).
                  SI_SymbolPin_new ext t (SymbolPin_getUuid p) \<noteq> Inl NullDereference)) \<longrightarrow>
            raises (SI_Symbol_new ext schematic ci u position rotation random) \<and>
            (xml_refers ext schematic domElement ci u \<longrightarrow>
               raises (SI_Symbol_xml ext schematic domElement)))"
proof -
  have new: "isl (SI_Symbol_new ext schematic ci u position rotation random)"
    unfolding SI_Symbol_new_def
    by (rule init_disagree [OF _ assms(1) _ _ assms(3)]) (simp_all add: assms(2))
  have i: "isl (init ext
            \<lparr>mSchematic = schematic, mComponentInstance = Some ci, mSymbVarItem = None,
             mSymbol = None, mGraphicsItem = None, mUuid = uuid,
             mPosition = \<lparr>getX = x, getY = y\<rparr>, mRotation = rotation, mPins = []\<rparr> u)"
    for uuid x y rotation
    by (rule init_disagree [OF _ assms(1) _ _ assms(3)]) (simp_all add: assms(2))
  have xml: "isl (SI_Symbol_xml ext schematic domElement)"
    if "xml_refers ext schematic domElement ci u"
  proof -
    from that obtain gcUuid where
      "getAttribute (Uuid_fromText ext) domElement ''component_instance'' = Inr gcUuid"
      "getComponentInstanceByUuid (Project_getCircuit (Schematic_getProject schematic)) gcUuid
         = Some ci"
      "getAttribute (Uuid_fromText ext) domElement ''symbol_item'' = Inr u"
      by (auto simp: xml_refers_def split: sum.splits)
    with i show ?thesis
      by (auto simp: SI_Symbol_xml_def split: sum.splits)
  qed
  have raised: "raises (SI_Symbol_new ext schematic ci u position rotation random) \<and>
      (xml_refers ext schematic domElement ci u \<longrightarrow>
         raises (SI_Symbol_xml ext schematic domElement))"
    if pins: "\<forall>t. mComponentInstance t = Some ci \<and> mSymbVarItem t = Some item \<and>
         mSymbol t = Some symbol \<longrightarrow>
         (\<forall>p \<in> set (Symbol_getPins symbol).
            SI_SymbolPin_new ext t (SymbolPin_getUuid p) \<noteq> Inl NullDereference)"
  proof (intro conjI impI)
    have "SI_Symbol_new ext schematic ci u position rotation random \<noteq> Inl NullDereference"
      unfolding SI_Symbol_new_def
      by (rule init_no_crash [OF _ assms(1) _ pins]) (simp_all add: assms(2))
    with new show "raises (SI_Symbol_new ext schematic ci u position rotation random)"
      by (simp add: raises_iff)
  next
    assume "xml_refers ext schematic domElement ci u"
    then obtain gcUuid where r:
      "getAttribute (Uuid_fromText ext) domElement ''component_instance'' = Inr gcUuid"
      "getComponentInstanceByUuid (Project_getCircuit (Schematic_getProject schematic)) gcUuid
         = Some ci"
      "getAttribute (Uuid_fromText ext) domElement ''symbol_item'' = Inr u"
      by (auto simp: xml_refers_def split: sum.splits)
    have "raises (init ext
            \<lparr>mSchematic = schematic, mComponentInstance = Some ci, mSymbVarItem = None,
             mSymbol = None, mGraphicsItem = None, mUuid = uuid,
             mPosition = \<lparr>getX = x, getY = y\<rparr>, mRotation = rotation, mPins = []\<rparr> u)"
      (is "raises ?r") for uuid x y rotation
    proof -
      have "?r \<noteq> Inl NullDereference"
        by (rule init_no_crash [OF _ assms(1) _ pins]) (simp_all add: assms(2))
      with i show ?thesis
        by (simp add: raises_iff)
    qed
    then show "raises (SI_Symbol_xml ext schematic domElement)"
      using r
      by (auto simp: SI_Symbol_xml_def raises_Inl dest!: getAttribute_Inl getFirstChild_Inl
            split: sum.splits)
  qed
  from new xml raised show ?thesis
    by blast
qed

text \<open>
  The item \<open>item_short\<close> has no signal for the second pin of the resistor.
\<close>

theorem pin_disagreement_raises_witness:
  "getItemByUuid (Cmp_getSymbolVariant r1) (Uuid ''item-short'') = Some item_short \<and>
   getSymbol (Project_getLibrary (Schematic_getProject sheet)) (Item_getSymbolUuid item_short)
     = Some resistor \<and>
   pins_disagree resistor item_short \<and>
   xml_refers plain sheet saved_short r1 (Uuid ''item-short'') \<and>
   raises (SI_Symbol_new plain sheet r1 (Uuid ''item-short'') \<lparr>getX = 0, getY = 0\<rparr> 0
             (Uuid ''si-2'')) \<and>
   raises (SI_Symbol_xml plain sheet saved_short)"
proof -
  have pins: "\<forall>t. mComponentInstance t = Some r1 \<and> mSymbVarItem t = Some item_short \<and>
       mSymbol t = Some resistor \<longrightarrow>
       (\<forall>p \<in> set (Symbol_getPins resistor).
          SI_SymbolPin_new plain t (SymbolPin_getUuid p) \<noteq> Inl NullDereference)"
    by (simp add: plain_simps)
  from pin_disagreement_raises [OF short_item(1,2,3), of plain "\<lparr>getX = 0, getY = 0\<rparr>" 0
      "Uuid ''si-2''" saved_short] pins short_item(4)
  have "raises (SI_Symbol_new plain sheet r1 (Uuid ''item-short'') \<lparr>getX = 0, getY = 0\<rparr> 0
             (Uuid ''si-2'')) \<and>
     raises (SI_Symbol_xml plain sheet saved_short)"
    by blast
  with short_item show ?thesis
    by simp
qed

text \<open>
  Claim C4, as amended. \<open>checkAttributesValidity\<close> returns true if and only if the
  pointers to the component instance, to the symbol-variant item and to the library symbol
  are non-null and the identifier of the instance is not the null Uuid (the sheet is held
  by a reference, which is always bound). An instance that fails the check is not
  serialized (a \<open>LogicError\<close> is thrown), and an instance that a constructor returns has
  passed it.
\<close>

theorem validity_predicate:
  "(checkAttributesValidity s \<longleftrightarrow>
      mComponentInstance s \<noteq> None \<and> mSymbVarItem s \<noteq> None \<and> mSymbol s \<noteq> None \<and>
      \<not> isNull (mUuid s)) \<and>
   (\<not> checkAttributesValidity s \<longrightarrow> serializeToXmlDomElement ext s = Inl LogicError) \<and>
   (SI_Symbol_xml ext schematic domElement = Inr s \<or>
    SI_Symbol_new ext schematic cmpInstance symbolItem position rotation random = Inr s
      \<longrightarrow> checkAttributesValidity s)"
proof (intro conjI impI)
  show "checkAttributesValidity s \<longleftrightarrow>
      mComponentInstance s \<noteq> None \<and> mSymbVarItem s \<noteq> None \<and> mSymbol s \<noteq> None \<and>
      \<not> isNull (mUuid s)"
    by (auto simp: checkAttributesValidity_def)
  show "serializeToXmlDomElement ext s = Inl LogicError" if "\<not> checkAttributesValidity s"
    using that by (simp add: serializeToXmlDomElement_def)
  show "checkAttributesValidity s"
    if "SI_Symbol_xml ext schematic domElement = Inr s \<or>
        SI_Symbol_new ext schematic cmpInstance symbolItem position rotation random = Inr s"
    using that
    by (auto intro: constructed_valid SI_Symbol_xml_constructed SI_Symbol_new_constructed)
qed

text \<open>
  The instance with the null identifier is not serialized; the loaded instance is valid.
\<close>

theorem validity_predicate_witness:
  "\<not> checkAttributesValidity unnamed \<and>
   serializeToXmlDomElement plain unnamed = Inl LogicError \<and>
   SI_Symbol_xml plain sheet saved = Inr placed \<and>
   checkAttributesValidity placed"
proof -
  have u: "\<not> checkAttributesValidity unnamed"
    by (simp add: unnamed_def placed_def checkAttributesValidity_def isNull_def)
  have h: "SI_Symbol_xml plain sheet saved = Inr placed"
    by (rule load_saved)
  from validity_predicate [of unnamed plain] u
  have 1: "serializeToXmlDomElement plain unnamed = Inl LogicError"
    by blast
  from validity_predicate [of placed plain sheet saved] h
  have 2: "checkAttributesValidity placed"
    by blast
  from u 1 h 2 show ?thesis
    by blast
qed

text \<open>
  Claim C4 as it is stated fails on the instance \<open>unnamed\<close>: its three pointers are set
  (and its sheet is bound), and it is not valid, because its identifier is null. This is
  the state in which the placement constructor ends with a \<open>LogicError\<close> when the
  generated identifier is null (lemma \<open>null_identifier_is_rejected\<close>).
\<close>

theorem validity_needs_identifier_counterexample:
  "\<not> (checkAttributesValidity unnamed \<longleftrightarrow>
        mComponentInstance unnamed \<noteq> None \<and> mSymbVarItem unnamed \<noteq> None \<and>
        mSymbol unnamed \<noteq> None)"
  by (simp add: unnamed_def placed_def checkAttributesValidity_def isNull_def)

text \<open>
  Claim C5. For a valid instance \<open>serializeToXmlDomElement\<close> returns an element named
  \<open>symbol\<close> with exactly the attributes \<open>uuid\<close>, \<open>component_instance\<close> and \<open>symbol_item\<close>
  (the identifiers of the instance, of its component instance and of its symbol-variant
  item) and exactly one child, named \<open>position\<close>, with exactly the attributes \<open>x\<close>, \<open>y\<close>
  and \<open>rotation\<close>.
\<close>

theorem serialized_element_shape:
  assumes "checkAttributesValidity s"
  shows "\<exists>ci item. mComponentInstance s = Some ci \<and> mSymbVarItem s = Some item \<and>
     serializeToXmlDomElement ext s =
       Inr (XmlDomElement ''symbol''
          [(''uuid'', Uuid_toText ext (mUuid s)),
           (''component_instance'', Uuid_toText ext (Cmp_getUuid ci)),
           (''symbol_item'', Uuid_toText ext (Item_getUuid item))]
          [XmlDomElement ''position''
             [(''x'', Length_toText ext (getX (mPosition s))),
              (''y'', Length_toText ext (getY (mPosition s))),
              (''rotation'', Angle_toText ext (mRotation s))] []])"
proof -
  from assms obtain ci item where
    "mComponentInstance s = Some ci" "mSymbVarItem s = Some item"
    by (auto simp: checkAttributesValidity_def split: if_splits)
  with assms show ?thesis
    by (simp add: serialize_shape)
qed

text \<open>
  The element written for \<open>placed\<close> is \<open>saved\<close>.
\<close>

theorem serialized_element_shape_witness:
  "checkAttributesValidity placed \<and> serializeToXmlDomElement plain placed = Inr saved"
proof -
  have v: "checkAttributesValidity placed"
    by (simp add: placed_simps checkAttributesValidity_def isNull_def)
  from serialized_element_shape [OF v, of plain] v show ?thesis
    by (simp add: placed_simps project_simps saved_def)
qed

text \<open>
  Claim C6. The identifier of an instance made by the placement constructor is the value
  that the random-Uuid generator returned, whatever the arguments of the constructor are;
  the identifier of an instance loaded from saved data is the value of the \<open>uuid\<close> attribute
  of the saved element.
\<close>

theorem identifier_origin:
  "(SI_Symbol_new ext schematic cmpInstance symbolItem position rotation random = Inr s \<longrightarrow>
      mUuid s = random) \<and>
   (SI_Symbol_xml ext schematic domElement = Inr s' \<longrightarrow>
      getAttribute (Uuid_fromText ext) domElement ''uuid'' = Inr (mUuid s'))"
proof (intro conjI impI)
  assume "SI_Symbol_new ext schematic cmpInstance symbolItem position rotation random = Inr s"
  then show "mUuid s = random"
    unfolding SI_Symbol_new_def by (elim init_Inr) simp
next
  assume "SI_Symbol_xml ext schematic domElement = Inr s'"
  then show "getAttribute (Uuid_fromText ext) domElement ''uuid'' = Inr (mUuid s')"
    by (elim SI_Symbol_xml_Inr init_Inr) simp
qed

text \<open>
  The same instance, once placed with the random identifier \<open>si-1\<close> and once loaded from
  \<open>saved\<close>.
\<close>

theorem identifier_origin_witness:
  "SI_Symbol_new plain sheet r1 (Uuid ''item-ok'') \<lparr>getX = 2540000, getY = - 1270000\<rparr>
     90000000 (Uuid ''si-1'') = Inr placed \<and>
   mUuid placed = Uuid ''si-1'' \<and>
   SI_Symbol_xml plain sheet saved = Inr placed \<and>
   getAttribute (Uuid_fromText plain) saved ''uuid'' = Inr (Uuid ''si-1'')"
proof -
  note i = identifier_origin [of plain sheet r1 "Uuid ''item-ok''"
      "\<lparr>getX = 2540000, getY = - 1270000\<rparr>" 90000000 "Uuid ''si-1''" placed saved placed]
  from i place_new have 1: "mUuid placed = Uuid ''si-1''"
    by blast
  from i load_saved
  have "getAttribute (Uuid_fromText plain) saved ''uuid'' = Inr (mUuid placed)"
    by blast
  with 1 place_new load_saved show ?thesis
    by simp
qed

text \<open>
  Claim C7. Let \<open>s\<close> be an instance returned by a constructor, after any sequence of
  operations. If, in the schematic of \<open>s\<close>, the identifier of its component instance
  resolves to that component instance, the \<open>SI_SymbolPin\<close> constructor returns a pin object
  at each call that the loading constructor makes for \<open>s\<close> (nothing is asked of it in any
  other state), and the texts written for the six attribute values are read back as these
  values, then
  loading the element that \<open>serializeToXmlDomElement\<close> returns succeeds and gives an
  instance with the same identifier, position, rotation, component instance,
  symbol-variant item and library symbol.
\<close>

theorem save_and_load_roundtrip:
  fixes ext :: "('pin, 'scene) externals"
  assumes ctor: "SI_Symbol_xml ext schematic domElement = Inr s0 \<or>
      SI_Symbol_new ext schematic cmpInstance symbolItem position rotation random = Inr s0"
    and s: "s = foldl (after ext) s0 operations"
    and ci: "mComponentInstance s = Some ci"
    and item: "mSymbVarItem s = Some item"
    and symbol: "mSymbol s = Some symbol"
    and resolves: "getComponentInstanceByUuid
        (Project_getCircuit (Schematic_getProject (mSchematic s))) (Cmp_getUuid ci) = Some ci"
    and new: "pins_constructible ext (Symbol_getPins symbol)
        \<lparr>mSchematic = mSchematic s, mComponentInstance = Some ci, mSymbVarItem = Some item,
         mSymbol = Some symbol,
         mGraphicsItem = Some \<lparr>SGI_pos = mPosition s, SGI_rotation = - mRotation s\<rparr>,
         mUuid = mUuid s, mPosition = mPosition s, mRotation = mRotation s, mPins = []\<rparr>"
    and texts:
      "Uuid_fromText ext (Uuid_toText ext (mUuid s)) = Some (mUuid s)"
      "Uuid_fromText ext (Uuid_toText ext (Cmp_getUuid ci)) = Some (Cmp_getUuid ci)"
      "Uuid_fromText ext (Uuid_toText ext (Item_getUuid item)) = Some (Item_getUuid item)"
      "Length_fromText ext (Length_toText ext (getX (mPosition s))) = Some (getX (mPosition s))"
      "Length_fromText ext (Length_toText ext (getY (mPosition s))) = Some (getY (mPosition s))"
      "Angle_fromText ext (Angle_toText ext (mRotation s)) = Some (mRotation s)"
  shows "\<exists>xml s'.
      serializeToXmlDomElement ext s = Inr xml \<and>
      SI_Symbol_xml ext (mSchematic s) xml = Inr s' \<and>
      mUuid s' = mUuid s \<and> mPosition s' = mPosition s \<and> mRotation s' = mRotation s \<and>
      mComponentInstance s' = mComponentInstance s \<and> mSymbVarItem s' = mSymbVarItem s \<and>
      mSymbol s' = mSymbol s"
proof -
  from ctor have "constructed s0"
    by (auto intro: SI_Symbol_xml_constructed SI_Symbol_new_constructed)
  then have cs: "constructed s"
    unfolding s by (rule foldl_after_constructed)
  then obtain ci' item' symbol' where c:
    "mComponentInstance s = Some ci'" "mSymbVarItem s = Some item'" "mSymbol s = Some symbol'"
    "getItemByUuid (Cmp_getSymbolVariant ci') (Item_getUuid item') = Some item'"
    "getSymbol (Project_getLibrary (Schematic_getProject (mSchematic s)))
       (Item_getSymbolUuid item') = Some symbol'"
    "keys (mPins s) = map SymbolPin_getUuid (Symbol_getPins symbol')"
    "distinct (keys (mPins s))"
    "\<forall>p \<in> set (Symbol_getPins symbol').
       contains (Item_getPinSignalMap item') (SymbolPin_getUuid p)"
    "count (mPins s) = count (Item_getPinSignalMap item')"
    "\<not> isNull (mUuid s)" "mGraphicsItem s \<noteq> None"
    by (rule constructedD)
  from c(1,2,3) ci item symbol have same: "ci' = ci" "item' = item" "symbol' = symbol"
    by simp_all
  let ?position = "XmlDomElement ''position''
           [(''x'', Length_toText ext (getX (mPosition s))),
            (''y'', Length_toText ext (getY (mPosition s))),
            (''rotation'', Angle_toText ext (mRotation s))] []"
  let ?xml = "XmlDomElement ''symbol''
        [(''uuid'', Uuid_toText ext (mUuid s)),
         (''component_instance'', Uuid_toText ext (Cmp_getUuid ci)),
         (''symbol_item'', Uuid_toText ext (Item_getUuid item))]
        [?position]"
  let ?t = "\<lparr>mSchematic = mSchematic s, mComponentInstance = Some ci, mSymbVarItem = None,
        mSymbol = None, mGraphicsItem = None, mUuid = mUuid s,
        mPosition = mPosition s, mRotation = mRotation s,
        mPins = ([] :: (uuid, 'pin) QHash)\<rparr>"
  have ser: "serializeToXmlDomElement ext s = Inr ?xml"
    using constructed_valid [OF cs] ci item by (rule serialize_shape)
  have dist: "distinct (map SymbolPin_getUuid (Symbol_getPins symbol))"
    using c(6,7) same by simp
  have cnt: "length (Symbol_getPins symbol) = count (Item_getPinSignalMap item)"
    using c(6,9) same by (simp add: count_keys)
  have "\<exists>s'. init ext ?t (Item_getUuid item) = Inr s'"
  proof (rule init_succeeds [where ci = ci and item = item and symbol = symbol])
    show "getItemByUuid (Cmp_getSymbolVariant ci) (Item_getUuid item) = Some item"
      using c(4) same by simp
    show "getSymbol (Project_getLibrary (Schematic_getProject (mSchematic ?t)))
       (Item_getSymbolUuid item) = Some symbol"
      using c(5) same by simp
    show "\<forall>p \<in> set (Symbol_getPins symbol).
        contains (Item_getPinSignalMap item) (SymbolPin_getUuid p)"
      using c(8) same by simp
    show "\<not> isNull (mUuid ?t)"
      using c(10) by simp
  qed (simp_all add: dist cnt new)
  then obtain s' where s': "init ext ?t (Item_getUuid item) = Inr s'" ..
  have p: "\<lparr>getX = getX (mPosition s), getY = getY (mPosition s)\<rparr> = mPosition s"
    by simp
  have load: "SI_Symbol_xml ext (mSchematic s) ?xml = Inr s'"
    by (simp add: SI_Symbol_xml_def getAttribute_def getFirstChild_def texts resolves p s')
  have "mUuid s' = mUuid ?t \<and> mPosition s' = mPosition ?t \<and> mRotation s' = mRotation ?t \<and>
      mComponentInstance s' = Some ci \<and> mSymbVarItem s' = Some item \<and>
      mSymbol s' = Some symbol"
  proof (rule init_result [OF s'])
    show "getItemByUuid (Cmp_getSymbolVariant ci) (Item_getUuid item) = Some item"
      using c(4) same by simp
    show "getSymbol (Project_getLibrary (Schematic_getProject (mSchematic ?t)))
       (Item_getSymbolUuid item) = Some symbol"
      using c(5) same by simp
  qed simp
  then have "mUuid s' = mUuid s \<and> mPosition s' = mPosition s \<and> mRotation s' = mRotation s \<and>
      mComponentInstance s' = mComponentInstance s \<and> mSymbVarItem s' = mSymbVarItem s \<and>
      mSymbol s' = mSymbol s"
    using ci item symbol by simp
  with ser load show ?thesis
    by blast
qed

text \<open>
  The loaded and then moved instance is saved and loaded again.
\<close>

theorem save_and_load_roundtrip_witness:
  "SI_Symbol_xml plain sheet saved = Inr placed \<and>
   foldl (after plain) placed
     [SetPosition \<lparr>getX = 0, getY = 5080000\<rparr>, AddToSchematic (), SerializeToXmlDomElement]
     = moved \<and>
   getComponentInstanceByUuid (Project_getCircuit (Schematic_getProject sheet)) (Cmp_getUuid r1)
     = Some r1 \<and>
   (\<exists>xml s'. serializeToXmlDomElement plain moved = Inr xml \<and>
      SI_Symbol_xml plain sheet xml = Inr s' \<and>
      mUuid s' = Uuid ''si-1'' \<and> mPosition s' = \<lparr>getX = 0, getY = 5080000\<rparr> \<and>
      mRotation s' = 90000000 \<and> mComponentInstance s' = Some r1 \<and>
      mSymbVarItem s' = Some item_ok \<and> mSymbol s' = Some resistor)"
proof -
  have resolves: "getComponentInstanceByUuid
      (Project_getCircuit (Schematic_getProject (mSchematic moved))) (Cmp_getUuid r1) = Some r1"
    by (simp add: moved_simps lookup_defs project_simps)
  have new: "pins_constructible plain (Symbol_getPins resistor)
      \<lparr>mSchematic = mSchematic moved, mComponentInstance = Some r1,
       mSymbVarItem = Some item_ok, mSymbol = Some resistor,
       mGraphicsItem =
         Some \<lparr>SGI_pos = mPosition moved, SGI_rotation = - mRotation moved\<rparr>,
       mUuid = mUuid moved, mPosition = mPosition moved, mRotation = mRotation moved,
       mPins = []\<rparr>"
    by (simp add: plain_simps resistor_simps)
  have texts:
    "Uuid_fromText plain (Uuid_toText plain (mUuid moved)) = Some (mUuid moved)"
    "Uuid_fromText plain (Uuid_toText plain (Cmp_getUuid r1)) = Some (Cmp_getUuid r1)"
    "Uuid_fromText plain (Uuid_toText plain (Item_getUuid item_ok)) = Some (Item_getUuid item_ok)"
    "Length_fromText plain (Length_toText plain (getX (mPosition moved)))
       = Some (getX (mPosition moved))"
    "Length_fromText plain (Length_toText plain (getY (mPosition moved)))
       = Some (getY (mPosition moved))"
    "Angle_fromText plain (Angle_toText plain (mRotation moved)) = Some (mRotation moved)"
    by (simp_all add: moved_simps project_simps)
  have "\<exists>xml s'.
      serializeToXmlDomElement plain moved = Inr xml \<and>
      SI_Symbol_xml plain (mSchematic moved) xml = Inr s' \<and>
      mUuid s' = mUuid moved \<and> mPosition s' = mPosition moved \<and>
      mRotation s' = mRotation moved \<and>
      mComponentInstance s' = mComponentInstance moved \<and>
      mSymbVarItem s' = mSymbVarItem moved \<and> mSymbol s' = mSymbol moved"
    by (rule save_and_load_roundtrip
          [OF disjI1 [OF load_saved] move_placed [symmetric] moved_simps(2,3,4) resolves new
            texts])
  then have "\<exists>xml s'. serializeToXmlDomElement plain moved = Inr xml \<and>
      SI_Symbol_xml plain sheet xml = Inr s' \<and>
      mUuid s' = Uuid ''si-1'' \<and> mPosition s' = \<lparr>getX = 0, getY = 5080000\<rparr> \<and>
      mRotation s' = 90000000 \<and> mComponentInstance s' = Some r1 \<and>
      mSymbVarItem s' = Some item_ok \<and> mSymbol s' = Some resistor"
    by (simp add: moved_simps)
  with load_saved move_placed resolves show ?thesis
    by (simp add: moved_simps)
qed

text \<open>
  Claim C8. \<open>mapToScene p\<close> is \<open>p\<close> translated by the position of the instance and then
  rotated by the rotation of the instance about the position of the instance.
\<close>

theorem mapToScene_translates_then_rotates:
  "mapToScene ext s p =
     Point_rotated ext (Point_plus p (mPosition s)) (mRotation s) (mPosition s)"
  by (simp add: mapToScene_def Point_plus_def add.commute)

text \<open>
  Claim C9. On an instance whose pointers are set, \<open>getAttributeValue\<close> answers by itself
  with true exactly when the namespace is \<open>SYM\<close> or empty and the key is \<open>NAME\<close>, and the
  value is then the name of the component instance followed by the suffix of the item. For
  the namespace \<open>SYM\<close> and another key it returns false, leaves the value as it was and
  asks no parent, whatever \<open>passToParents\<close> is. A parent is asked only when the namespace
  is not \<open>SYM\<close> and \<open>passToParents\<close> is true: the component instance first, then the
  schematic.
\<close>

theorem getAttributeValue_cases:
  assumes "mComponentInstance s = Some ci" and "mSymbVarItem s = Some item"
  shows "\<exists>r v asked.
      getAttributeValue ext s attrNS attrKey passToParents val = Some (r, v, asked) \<and>
      (r \<and> asked = [] \<longleftrightarrow> (attrNS = ''SYM'' \<or> attrNS = []) \<and> attrKey = ''NAME'') \<and>
      ((attrNS = ''SYM'' \<or> attrNS = []) \<and> attrKey = ''NAME'' \<longrightarrow>
         v = Cmp_getName ci @ Item_getSuffix item) \<and>
      (attrNS = ''SYM'' \<and> attrKey \<noteq> ''NAME'' \<longrightarrow> \<not> r \<and> v = val \<and> asked = []) \<and>
      (asked \<noteq> [] \<longrightarrow> attrNS \<noteq> ''SYM'' \<and> passToParents) \<and>
      (asked = [] \<or> asked = [AskedComponentInstance] \<or>
       asked = [AskedComponentInstance, AskedSchematic])"
  using assms
  by (auto simp: getAttributeValue_def SI_Symbol_getName_def split: prod.splits bool.splits)

text \<open>
  The four kinds of answers on \<open>placed\<close>.
\<close>

theorem getAttributeValue_cases_witness:
  "getAttributeValue plain placed ''SYM'' ''NAME'' False ''old'' = Some (True, ''R1-A'', []) \<and>
   getAttributeValue plain placed ''SYM'' ''VALUE'' True ''old'' = Some (False, ''old'', []) \<and>
   getAttributeValue plain placed ''CMP'' ''VALUE'' True ''old''
     = Some (True, ''10k'', [AskedComponentInstance]) \<and>
   getAttributeValue plain placed [] ''PAGE'' True ''old''
     = Some (True, ''1'', [AskedComponentInstance, AskedSchematic])"
  using
    getAttributeValue_cases [OF placed_simps(2,3), of plain "''SYM''" "''NAME''" False "''old''"]
    getAttributeValue_cases [OF placed_simps(2,3), of plain "''SYM''" "''VALUE''" True "''old''"]
    getAttributeValue_cases [OF placed_simps(2,3), of plain "''CMP''" "''VALUE''" True "''old''"]
    getAttributeValue_cases [OF placed_simps(2,3), of plain "[]" "''PAGE''" True "''old''"]
  by (simp add: getAttributeValue_def SI_Symbol_getName_def placed_simps project_simps)

end
